theory Spec2Isabelle
  imports Complex_Main
begin

section \<open>Data model\<close>

text \<open>
  The store holds three collections (\<open>models/Task.js\<close>, \<open>models/Employee.js\<close> and the
  User model). An ObjectId is modelled as a natural number; dates are milliseconds since
  the epoch. The collections are lists in insertion order, which is the order in which
  an unsorted \<open>find\<close> and \<open>findOne\<close> visit them. The identifier of a route (\<open>/:id\<close>) is
  taken as cast already; the \<open>assignedTo\<close> of a create request is the string of the body,
  whose cast can fail.
\<close>

type_synonym oid = nat
type_synonym date = int

datatype role = Admin | Employee

datatype priority = Low | Medium | High | Urgent

datatype status = Pending | InProgress | Completed | Cancelled

fun status_str :: "status \<Rightarrow> string" where
  "status_str Pending = ''pending''"
| "status_str InProgress = ''in-progress''"
| "status_str Completed = ''completed''"
| "status_str Cancelled = ''cancelled''"

fun priority_str :: "priority \<Rightarrow> string" where
  "priority_str Low = ''low''"
| "priority_str Medium = ''medium''"
| "priority_str High = ''high''"
| "priority_str Urgent = ''urgent''"

text \<open>The enum validators of the Task schema: a string outside the enum is rejected.\<close>

definition parse_status :: "string \<Rightarrow> status option" where
  "parse_status s =
     (if s = ''pending'' then Some Pending
      else if s = ''in-progress'' then Some InProgress
      else if s = ''completed'' then Some Completed
      else if s = ''cancelled'' then Some Cancelled
      else None)"

definition parse_priority :: "string \<Rightarrow> priority option" where
  "parse_priority s =
     (if s = ''low'' then Some Low
      else if s = ''medium'' then Some Medium
      else if s = ''high'' then Some High
      else if s = ''urgent'' then Some Urgent
      else None)"

text \<open>
  Modelled from the spec: \<open>models/User.js\<close> is not among the sources. The spec gives a
  User a name, a unique email, an opaque password, a role (admin or employee), a
  department, an active flag and a creation timestamp.
\<close>

record user =
  user_id :: oid
  user_name :: string
  email :: string
  password :: string
  user_role :: role
  department :: "string option"
  isActive :: bool
  user_createdAt :: date

record employee =
  employee_oid :: oid
  employee_user :: oid
  employeeId :: string
  position :: "string option"
  phone :: "string option"
  skills :: "string list"
  tasksCompleted :: int
  employee_createdAt :: date

record comment =
  comment_user :: oid
  comment_text :: "string option"
  comment_createdAt :: date

record attachment =
  filename :: string
  url :: string
  uploadedAt :: date

record task =
  task_id :: oid
  title :: string
  description :: string
  assignedTo :: oid
  assignedBy :: oid
  priority :: priority
  status :: status
  deadline :: date
  startDate :: date
  completedDate :: "date option"
  comments :: "comment list"
  attachments :: "attachment list"
  tags :: "string list"
  notificationSent :: bool
  createdAt :: date
  updatedAt :: date

text \<open>A call of \<open>sendTaskNotification(to, {taskTitle, assignedBy, deadline, priority})\<close>.\<close>

record notification =
  note_to :: string
  taskTitle :: "string option"
  note_assignedBy :: string
  note_deadline :: date
  note_priority :: "string option"

text \<open>
  The database state, the counter from which fresh ObjectIds are drawn, and the log of
  notification attempts.
\<close>

record db =
  users :: "user list"
  employees :: "employee list"
  tasks :: "task list"
  next_oid :: oid
  notifications :: "notification list"

text \<open>\<open>req.user\<close>, as the authentication middleware leaves it.\<close>

record req_user =
  caller_id :: oid
  caller_role :: role
  caller_name :: string

section \<open>Responses and errors\<close>

text \<open>
  An error thrown by the data layer: a schema validator that fails on the named path, a
  violated unique index on the named path, a value that does not cast to the type of
  the named path, or a query the server rejects.
\<close>

datatype db_error = ValidationError string | DuplicateKey string | CastError string | QueryError string

datatype msg = Msg string | ErrorMessage db_error

text \<open>\<open>res.status(code).json({success, message, data})\<close>.\<close>

record 'a response =
  status_code :: nat
  success :: bool
  message :: "msg option"
  data :: "'a option"

definition reply :: "nat \<Rightarrow> string \<Rightarrow> 'a \<Rightarrow> 'a response" where
  "reply c m d = \<lparr>status_code = c, success = True, message = Some (Msg m), data = Some d\<rparr>"

definition reply_data :: "nat \<Rightarrow> 'a \<Rightarrow> 'a response" where
  "reply_data c d = \<lparr>status_code = c, success = True, message = None, data = Some d\<rparr>"

definition reply_done :: "nat \<Rightarrow> string \<Rightarrow> 'a response" where
  "reply_done c m = \<lparr>status_code = c, success = True, message = Some (Msg m), data = None\<rparr>"

definition failure :: "nat \<Rightarrow> msg \<Rightarrow> 'a response" where
  "failure c m = \<lparr>status_code = c, success = False, message = Some m, data = None\<rparr>"

section \<open>Data-layer operations\<close>

definition findById :: "('a \<Rightarrow> oid) \<Rightarrow> oid \<Rightarrow> 'a list \<Rightarrow> 'a option" where
  "findById key i xs = find (\<lambda>x. key x = i) xs"

text \<open>\<open>findOneAndUpdate\<close> and \<open>findOneAndDelete\<close> touch the first matching document only.\<close>

fun update_first :: "('a \<Rightarrow> bool) \<Rightarrow> ('a \<Rightarrow> 'a) \<Rightarrow> 'a list \<Rightarrow> 'a list" where
  "update_first P f [] = []"
| "update_first P f (x # xs) = (if P x then f x # xs else x # update_first P f xs)"

fun delete_first :: "('a \<Rightarrow> bool) \<Rightarrow> 'a list \<Rightarrow> 'a list" where
  "delete_first P [] = []"
| "delete_first P (x # xs) = (if P x then xs else x # delete_first P xs)"

text \<open>\<open>updateMany\<close> touches every matching document.\<close>

definition updateMany :: "('a \<Rightarrow> bool) \<Rightarrow> ('a \<Rightarrow> 'a) \<Rightarrow> 'a list \<Rightarrow> 'a list" where
  "updateMany P f xs = map (\<lambda>x. if P x then f x else x) xs"

text \<open>The user fields a \<open>populate\<close> call copies into a response.\<close>

record user_ref =
  ref_id :: oid
  ref_name :: string
  ref_email :: string
  ref_department :: "string option"

definition populate :: "bool \<Rightarrow> user list \<Rightarrow> oid \<Rightarrow> user_ref option" where
  "populate with_department us i =
     map_option (\<lambda>u. \<lparr>ref_id = user_id u, ref_name = user_name u, ref_email = email u,
                      ref_department = (if with_department then department u else None)\<rparr>)
       (findById user_id i us)"

record populated_task =
  doc :: task
  assignedTo_user :: "user_ref option"
  assignedBy_user :: "user_ref option"

definition populate_task :: "user list \<Rightarrow> task \<Rightarrow> populated_task" where
  "populate_task us t =
     \<lparr>doc = t, assignedTo_user = populate True us (assignedTo t),
      assignedBy_user = populate False us (assignedBy t)\<rparr>"

section \<open>Task model: the save hook\<close>

text \<open>
  \<open>taskSchema.pre('save')\<close>: refreshes \<open>updatedAt\<close>, and sets \<open>completedDate\<close> when the
  status was modified, is \<open>completed\<close>, and no completion date is stored yet. The hook runs
  on \<open>save\<close> and \<open>create\<close>; \<open>findByIdAndUpdate\<close> and \<open>updateMany\<close> are query operations
  and do not run it.
\<close>

definition task_pre_save :: "date \<Rightarrow> bool \<Rightarrow> task \<Rightarrow> task" where
  "task_pre_save now status_modified t =
     (let t1 = t\<lparr>updatedAt := now\<rparr>
      in if status_modified \<and> status t1 = Completed \<and> completedDate t1 = None
         then t1\<lparr>completedDate := Some now\<rparr> else t1)"

text \<open>
  \<open>String.prototype.trim\<close>, the setter behind \<open>trim: true\<close>, strips white space and line
  terminators from both ends. A string is its UTF-8 bytes, so each of these code points
  is a sequence of one to three bytes: U+0009 to U+000D, U+0020, U+00A0, U+1680, U+2000
  to U+200A, U+2028, U+2029, U+202F, U+205F, U+3000 and U+FEFF.
\<close>

definition white_space :: "string list" where
  "white_space =
     [[CHR 0x09], [CHR 0x0A], [CHR 0x0B], [CHR 0x0C], [CHR 0x0D], [CHR 0x20],
      [CHR 0xC2, CHR 0xA0], [CHR 0xE1, CHR 0x9A, CHR 0x80],
      [CHR 0xE2, CHR 0x80, CHR 0x80], [CHR 0xE2, CHR 0x80, CHR 0x81],
      [CHR 0xE2, CHR 0x80, CHR 0x82], [CHR 0xE2, CHR 0x80, CHR 0x83],
      [CHR 0xE2, CHR 0x80, CHR 0x84], [CHR 0xE2, CHR 0x80, CHR 0x85],
      [CHR 0xE2, CHR 0x80, CHR 0x86], [CHR 0xE2, CHR 0x80, CHR 0x87],
      [CHR 0xE2, CHR 0x80, CHR 0x88], [CHR 0xE2, CHR 0x80, CHR 0x89],
      [CHR 0xE2, CHR 0x80, CHR 0x8A], [CHR 0xE2, CHR 0x80, CHR 0xA8],
      [CHR 0xE2, CHR 0x80, CHR 0xA9], [CHR 0xE2, CHR 0x80, CHR 0xAF],
      [CHR 0xE2, CHR 0x81, CHR 0x9F], [CHR 0xE3, CHR 0x80, CHR 0x80],
      [CHR 0xEF, CHR 0xBB, CHR 0xBF]]"

text \<open>Strips, from the front, every sequence of the list that the string starts with.\<close>

function strip_front :: "string list \<Rightarrow> string \<Rightarrow> string" where
  "strip_front ws s =
     (case find (\<lambda>w. w \<noteq> [] \<and> take (length w) s = w) ws of
        None \<Rightarrow> s
      | Some w \<Rightarrow> strip_front ws (drop (length w) s))"
  by pat_completeness auto
termination
proof (relation "measure (\<lambda>(ws, s). length s)")
  show "wf (measure (\<lambda>(ws, s). length s))" by simp
next
  fix ws :: "string list" and s w :: string
  assume "find (\<lambda>w. w \<noteq> [] \<and> take (length w) s = w) ws = Some w"
  then have w: "w \<noteq> []" and "take (length w) s = w"
    by (auto simp: find_Some_iff)
  then have "length w \<le> length s"
    by (auto simp: min_def dest: arg_cong [where f = length] split: if_splits)
  with w show "((ws, drop (length w) s), (ws, s)) \<in> measure (\<lambda>(ws, s). length s)"
    by (cases w) simp_all
qed

declare strip_front.simps [simp del]

definition trim :: "string \<Rightarrow> string" where
  "trim s = rev (strip_front (map rev white_space) (rev (strip_front white_space s)))"

section \<open>Task controller: create\<close>

record create_task_body =
  body_title :: "string option"
  body_description :: "string option"
  body_assignedTo :: "string option"
  body_priority :: "string option"
  body_deadline :: "date option"
  body_tags :: "string list option"

text \<open>
  \<open>Task.create\<close>: the schema's required and enum validators, its defaults, then the save
  hook (the status of a new document is the default and not marked modified), then the
  insert.
\<close>

definition new_task :: "date \<Rightarrow> oid \<Rightarrow> oid \<Rightarrow> oid \<Rightarrow> create_task_body \<Rightarrow> db_error + task" where
  "new_task now i to by b =
     (case body_title b of None \<Rightarrow> Inl (ValidationError ''title'') | Some ti \<Rightarrow>
      if trim ti = [] then Inl (ValidationError ''title'') else
      case body_description b of None \<Rightarrow> Inl (ValidationError ''description'') | Some de \<Rightarrow>
      if de = [] then Inl (ValidationError ''description'') else
      case body_deadline b of None \<Rightarrow> Inl (ValidationError ''deadline'') | Some dl \<Rightarrow>
      case (case body_priority b of None \<Rightarrow> Some Medium | Some p \<Rightarrow> parse_priority p) of
        None \<Rightarrow> Inl (ValidationError ''priority'')
      | Some pr \<Rightarrow>
          Inr (task_pre_save now False
            \<lparr>task_id = i, title = trim ti, description = de, assignedTo = to, assignedBy = by,
             priority = pr, status = Pending, deadline = dl, startDate = now,
             completedDate = None, comments = [], attachments = [],
             tags = (case body_tags b of None \<Rightarrow> [] | Some ts \<Rightarrow> ts),
             notificationSent = False, createdAt = now, updatedAt = now\<rparr>))"

text \<open>
  \<open>User.findById(assignedTo)\<close>. The cast of a string to an ObjectId belongs to the driver
  and is a parameter \<open>castObjectId\<close>: a string that does not cast makes the query throw a
  CastError. An absent identifier finds no user.
\<close>

definition User_findById :: "(string \<Rightarrow> oid option) \<Rightarrow> string option \<Rightarrow> user list \<Rightarrow> db_error + user option" where
  "User_findById castObjectId a us =
     (case a of
        None \<Rightarrow> Inr None
      | Some x \<Rightarrow>
          (case castObjectId x of
             None \<Rightarrow> Inl (CastError ''_id'')
           | Some i \<Rightarrow> Inr (findById user_id i us)))"

text \<open>
  \<open>createTask\<close>. An error thrown inside the \<open>try\<close> block, the CastError of the lookup
  included, is answered by the \<open>catch\<close> block with 500 and the message of the error.
\<close>

definition createTask :: "(string \<Rightarrow> oid option) \<Rightarrow> date \<Rightarrow> req_user \<Rightarrow> create_task_body \<Rightarrow> db \<Rightarrow> populated_task response \<times> db" where
  "createTask castObjectId now caller b s =
     (case User_findById castObjectId (body_assignedTo b) (users s) of
        Inl e \<Rightarrow> (failure 500 (ErrorMessage e), s)
      | Inr None \<Rightarrow> (failure 400 (Msg ''Invalid employee ID''), s)
      | Inr (Some assignedUser) \<Rightarrow>
          if user_role assignedUser \<noteq> Employee
          then (failure 400 (Msg ''Invalid employee ID''), s)
          else
            (case new_task now (next_oid s) (user_id assignedUser) (caller_id caller) b of
               Inl e \<Rightarrow> (failure 500 (ErrorMessage e), s)
             | Inr t \<Rightarrow>
                 let s1 = s\<lparr>tasks := tasks s @ [t], next_oid := Suc (next_oid s)\<rparr>;
                     s2 = s1\<lparr>notifications := notifications s1 @
                            [\<lparr>note_to = email assignedUser, taskTitle = body_title b,
                              note_assignedBy = caller_name caller, note_deadline = deadline t,
                              note_priority = body_priority b\<rparr>]\<rparr>
                 in (reply 201 ''Task created successfully'' (populate_task (users s2) t), s2)))"

text \<open>
  The assignee of a request resolves when the identifier is supplied, casts, and names a
  stored User whose role is employee. It is malformed when it is supplied and does not
  cast.
\<close>

definition resolves_to_employee :: "(string \<Rightarrow> oid option) \<Rightarrow> string option \<Rightarrow> db \<Rightarrow> bool" where
  "resolves_to_employee castObjectId a s =
     (case a of None \<Rightarrow> False
      | Some x \<Rightarrow>
          (case castObjectId x of None \<Rightarrow> False
           | Some i \<Rightarrow> (case findById user_id i (users s) of None \<Rightarrow> False
                        | Some u \<Rightarrow> user_role u = Employee)))"

definition malformed :: "(string \<Rightarrow> oid option) \<Rightarrow> string option \<Rightarrow> bool" where
  "malformed castObjectId a = (case a of None \<Rightarrow> False | Some x \<Rightarrow> castObjectId x = None)"

section \<open>Task controller: update and comment\<close>

text \<open>
  The request body of an update: every path of the Task schema may be supplied. A path
  that is absent (\<open>undefined\<close>) is left out of the update.
\<close>

record update_task_body =
  upd_title :: "string option"
  upd_description :: "string option"
  upd_assignedTo :: "oid option"
  upd_assignedBy :: "oid option"
  upd_priority :: "string option"
  upd_status :: "string option"
  upd_deadline :: "date option"
  upd_startDate :: "date option"
  upd_completedDate :: "date option"
  upd_comments :: "comment list option"
  upd_attachments :: "attachment list option"
  upd_tags :: "string list option"
  upd_notificationSent :: "bool option"
  upd_createdAt :: "date option"
  upd_updatedAt :: "date option"

text \<open>The update document \<open>{ status }\<close> built by the employee branch.\<close>

definition status_only :: "string option \<Rightarrow> update_task_body" where
  "status_only st =
     \<lparr>upd_title = None, upd_description = None, upd_assignedTo = None, upd_assignedBy = None,
      upd_priority = None, upd_status = st, upd_deadline = None, upd_startDate = None,
      upd_completedDate = None, upd_comments = None, upd_attachments = None, upd_tags = None,
      upd_notificationSent = None, upd_createdAt = None, upd_updatedAt = None\<rparr>"

definition set_opt :: "'a option \<Rightarrow> 'a \<Rightarrow> 'a" where
  "set_opt v old = (case v of None \<Rightarrow> old | Some x \<Rightarrow> x)"

text \<open>
  The update validators (\<open>runValidators: true\<close>) on the supplied paths, then the
  assignment of the supplied paths. No save hook runs.
\<close>

definition apply_task_update :: "update_task_body \<Rightarrow> task \<Rightarrow> db_error + task" where
  "apply_task_update u t =
     (if (case upd_title u of None \<Rightarrow> False | Some ti \<Rightarrow> trim ti = [])
      then Inl (ValidationError ''title'')
      else if upd_description u = Some [] then Inl (ValidationError ''description'')
      else case (case upd_priority u of None \<Rightarrow> Some (priority t) | Some p \<Rightarrow> parse_priority p) of
        None \<Rightarrow> Inl (ValidationError ''priority'')
      | Some pr \<Rightarrow>
      (case (case upd_status u of None \<Rightarrow> Some (status t) | Some x \<Rightarrow> parse_status x) of
        None \<Rightarrow> Inl (ValidationError ''status'')
      | Some st \<Rightarrow>
          Inr (t\<lparr>title := set_opt (map_option trim (upd_title u)) (title t),
                 description := set_opt (upd_description u) (description t),
                 assignedTo := set_opt (upd_assignedTo u) (assignedTo t),
                 assignedBy := set_opt (upd_assignedBy u) (assignedBy t),
                 priority := pr,
                 status := st,
                 deadline := set_opt (upd_deadline u) (deadline t),
                 startDate := set_opt (upd_startDate u) (startDate t),
                 completedDate := (case upd_completedDate u of None \<Rightarrow> completedDate t
                                   | Some d \<Rightarrow> Some d),
                 comments := set_opt (upd_comments u) (comments t),
                 attachments := set_opt (upd_attachments u) (attachments t),
                 tags := set_opt (upd_tags u) (tags t),
                 notificationSent := set_opt (upd_notificationSent u) (notificationSent t),
                 createdAt := set_opt (upd_createdAt u) (createdAt t),
                 updatedAt := set_opt (upd_updatedAt u) (updatedAt t)\<rparr>)))"

text \<open>\<open>Task.findByIdAndUpdate(id, update, {new: true, runValidators: true})\<close>.\<close>

definition findByIdAndUpdate :: "oid \<Rightarrow> update_task_body \<Rightarrow> task list \<Rightarrow> db_error + (task option \<times> task list)" where
  "findByIdAndUpdate i u ts =
     (case findById task_id i ts of
        None \<Rightarrow> Inr (None, ts)
      | Some t \<Rightarrow>
          (case apply_task_update u t of
             Inl e \<Rightarrow> Inl e
           | Inr t' \<Rightarrow> Inr (Some t', update_first (\<lambda>x. task_id x = i) (\<lambda>_. t') ts)))"

text \<open>\<open>Employee.findOneAndUpdate({ user }, { $inc: { tasksCompleted: 1 } })\<close>.\<close>

definition inc_tasksCompleted :: "oid \<Rightarrow> employee list \<Rightarrow> employee list" where
  "inc_tasksCompleted uid es =
     update_first (\<lambda>e. employee_user e = uid) (\<lambda>e. e\<lparr>tasksCompleted := tasksCompleted e + 1\<rparr>) es"

definition updateTask :: "req_user \<Rightarrow> oid \<Rightarrow> update_task_body \<Rightarrow> db \<Rightarrow> populated_task option response \<times> db" where
  "updateTask caller i body s =
     (case findById task_id i (tasks s) of
        None \<Rightarrow> (failure 404 (Msg ''Task not found''), s)
      | Some t \<Rightarrow>
          if caller_role caller = Employee then
            if assignedTo t \<noteq> caller_id caller
            then (failure 403 (Msg ''Not authorized to update this task''), s)
            else
              (case findByIdAndUpdate i (status_only (upd_status body)) (tasks s) of
                 Inl e \<Rightarrow> (failure 500 (Msg ''Error updating task''), s)
               | Inr (t', ts') \<Rightarrow>
                   let s1 = s\<lparr>tasks := ts'\<rparr>;
                       s2 = (if upd_status body = Some ''completed''
                             then s1\<lparr>employees := inc_tasksCompleted (caller_id caller) (employees s1)\<rparr>
                             else s1)
                   in (reply 200 ''Task updated successfully''
                         (map_option (populate_task (users s)) t'), s2))
          else
            (case findByIdAndUpdate i body (tasks s) of
               Inl e \<Rightarrow> (failure 500 (Msg ''Error updating task''), s)
             | Inr (t', ts') \<Rightarrow>
                 (reply 200 ''Task updated successfully''
                    (map_option (populate_task (users s)) t'), s\<lparr>tasks := ts'\<rparr>)))"

text \<open>
  \<open>addComment\<close> pushes the comment and calls \<open>task.save()\<close>: the one place where a stored
  task goes through the save hook. Only \<open>comments\<close> is modified, not \<open>status\<close>.
\<close>

definition addComment :: "date \<Rightarrow> req_user \<Rightarrow> oid \<Rightarrow> string option \<Rightarrow> db \<Rightarrow> task response \<times> db" where
  "addComment now caller i text s =
     (case findById task_id i (tasks s) of
        None \<Rightarrow> (failure 404 (Msg ''Task not found''), s)
      | Some t \<Rightarrow>
          let t1 = t\<lparr>comments := comments t @
                     [\<lparr>comment_user = caller_id caller, comment_text = text,
                       comment_createdAt = now\<rparr>]\<rparr>;
              t2 = task_pre_save now False t1
          in (reply 200 ''Comment added successfully'' t2,
              s\<lparr>tasks := update_first (\<lambda>x. task_id x = i) (\<lambda>_. t2) (tasks s)\<rparr>))"

section \<open>Task controller: queries\<close>

text \<open>
  The filter object handed to \<open>find\<close>, \<open>countDocuments\<close> and \<open>$match\<close>: one optional
  condition per key, all of which a matching document satisfies. Assigning a key again
  replaces its condition.
\<close>

datatype status_cond = StatusEq string | StatusNe string

record task_query =
  q_assignedTo :: "oid option"
  q_status :: "status_cond option"
  q_priority :: "string option"
  q_or :: "string option"
  q_deadline_gte :: "date option"
  q_deadline_lte :: "date option"
  q_deadline_lt :: "date option"
  q_createdAt_gte :: "date option"

definition empty_query :: task_query where
  "empty_query =
     \<lparr>q_assignedTo = None, q_status = None, q_priority = None, q_or = None,
      q_deadline_gte = None, q_deadline_lte = None, q_deadline_lt = None,
      q_createdAt_gte = None\<rparr>"

definition holds :: "'a option \<Rightarrow> ('a \<Rightarrow> bool) \<Rightarrow> bool" where
  "holds c P = (case c of None \<Rightarrow> True | Some x \<Rightarrow> P x)"

text \<open>
  The regular-expression engine of the database is a parameter \<open>rx\<close>: it compiles a
  pattern (with option \<open>i\<close>) to a matcher, or rejects it. \<open>$or\<close> asks for a match on the
  title or on the description.
\<close>

definition matches :: "(string \<Rightarrow> (string \<Rightarrow> bool) option) \<Rightarrow> task_query \<Rightarrow> task \<Rightarrow> bool" where
  "matches rx q t =
     (holds (q_assignedTo q) (\<lambda>a. assignedTo t = a)
      \<and> holds (q_status q) (\<lambda>c. case c of StatusEq x \<Rightarrow> status_str (status t) = x
                                        | StatusNe x \<Rightarrow> status_str (status t) \<noteq> x)
      \<and> holds (q_priority q) (\<lambda>p. priority_str (priority t) = p)
      \<and> holds (q_or q) (\<lambda>p. case rx p of None \<Rightarrow> False
                                | Some m \<Rightarrow> m (title t) \<or> m (description t))
      \<and> holds (q_deadline_gte q) (\<lambda>d. d \<le> deadline t)
      \<and> holds (q_deadline_lte q) (\<lambda>d. deadline t \<le> d)
      \<and> holds (q_deadline_lt q) (\<lambda>d. deadline t < d)
      \<and> holds (q_createdAt_gte q) (\<lambda>d. d \<le> createdAt t))"

text \<open>A query whose pattern does not compile is rejected by the server.\<close>

definition task_find :: "(string \<Rightarrow> (string \<Rightarrow> bool) option) \<Rightarrow> task_query \<Rightarrow> task list \<Rightarrow> db_error + task list" where
  "task_find rx q ts =
     (if (case q_or q of None \<Rightarrow> False | Some p \<Rightarrow> rx p = None)
      then Inl (QueryError ''$regex'')
      else Inr (filter (matches rx q) ts))"

text \<open>The filters of the statistics and of the calendar have no \<open>$or\<close> key and need no engine.\<close>

definition no_regex :: "string \<Rightarrow> (string \<Rightarrow> bool) option" where
  "no_regex p = None"

definition countDocuments :: "task_query \<Rightarrow> task list \<Rightarrow> nat" where
  "countDocuments q ts = length (filter (matches no_regex q) ts)"

text \<open>JavaScript truthiness of an optional string: absent and the empty string are falsy.\<close>

definition truthy :: "string option \<Rightarrow> bool" where
  "truthy x = (case x of None \<Rightarrow> False | Some v \<Rightarrow> v \<noteq> [])"

record list_params =
  p_status :: "string option"
  p_priority :: "string option"
  p_assignedTo :: "oid option"
  p_search :: "string option"
  p_page :: int
  p_limit :: int

text \<open>The filter \<open>getAllTasks\<close> builds, statement by statement.\<close>

definition list_query :: "req_user \<Rightarrow> list_params \<Rightarrow> task_query" where
  "list_query caller p =
     (let q0 = empty_query;
          q1 = (if caller_role caller = Employee
                then q0\<lparr>q_assignedTo := Some (caller_id caller)\<rparr> else q0);
          q2 = (if truthy (p_status p) then q1\<lparr>q_status := map_option StatusEq (p_status p)\<rparr> else q1);
          q3 = (if truthy (p_priority p) then q2\<lparr>q_priority := p_priority p\<rparr> else q2);
          q4 = (if p_assignedTo p \<noteq> None \<and> caller_role caller = Admin
                then q3\<lparr>q_assignedTo := p_assignedTo p\<rparr> else q3);
          q5 = (if truthy (p_search p) then q4\<lparr>q_or := p_search p\<rparr> else q4)
      in q5)"

record task_page =
  count :: nat
  total :: nat
  pages :: "int option"
  currentPage :: int
  items :: "populated_task list"

text \<open>
  \<open>sort({createdAt: -1})\<close> is applied before \<open>skip\<close> and \<open>limit\<close>. A negative skip is
  rejected by the server; a limit of 0 means no limit and a negative limit is taken by
  its absolute value. \<open>Math.ceil(total / limit)\<close> is not a number when the limit is 0.
\<close>

definition newest_first :: "task list \<Rightarrow> task list" where
  "newest_first ts = sort_key (\<lambda>t. - createdAt t) ts"

definition apply_limit :: "int \<Rightarrow> 'a list \<Rightarrow> 'a list" where
  "apply_limit l xs = (if l = 0 then xs else take (nat \<bar>l\<bar>) xs)"

definition getAllTasks :: "(string \<Rightarrow> (string \<Rightarrow> bool) option) \<Rightarrow> req_user \<Rightarrow> list_params \<Rightarrow> db \<Rightarrow> task_page response" where
  "getAllTasks rx caller p s =
     (let query = list_query caller p;
          skip = (p_page p - 1) * p_limit p
      in if skip < 0 then failure 500 (Msg ''Error fetching tasks'')
         else case task_find rx query (tasks s) of
           Inl e \<Rightarrow> failure 500 (Msg ''Error fetching tasks'')
         | Inr found \<Rightarrow>
             let page_items = apply_limit (p_limit p) (drop (nat skip) (newest_first found));
                 n = length found
             in \<lparr>status_code = 200, success = True, message = None,
                 data = Some \<lparr>count = length page_items, total = n,
                    pages = (if p_limit p = 0 then None else Some (- ((- int n) div p_limit p))),
                    currentPage = p_page p,
                    items = map (populate_task (users s)) page_items\<rparr>\<rparr>)"

section \<open>Task controller: calendar\<close>

text \<open>
  \<open>select('title status priority deadline assignedTo')\<close> with \<open>assignedTo\<close> populated by
  name and email; the identifier of a document is always part of a projection. The
  virtual \<open>isOverdue\<close> is computed from the status and the deadline when a document is
  serialised and is not a stored field.
\<close>

record calendar_item =
  cal_id :: oid
  cal_title :: string
  cal_status :: status
  cal_priority :: priority
  cal_deadline :: date
  cal_assignedTo :: oid
  cal_assignedTo_user :: "user_ref option"

definition calendar_project :: "user list \<Rightarrow> task \<Rightarrow> calendar_item" where
  "calendar_project us t =
     \<lparr>cal_id = task_id t, cal_title = title t, cal_status = status t,
      cal_priority = priority t, cal_deadline = deadline t, cal_assignedTo = assignedTo t,
      cal_assignedTo_user = populate False us (assignedTo t)\<rparr>"

text \<open>
  \<open>new Date(startDate)\<close>: a parameter that is absent or does not parse gives an invalid
  date, which the query refuses to cast.
\<close>

definition calendar_query :: "req_user \<Rightarrow> date \<Rightarrow> date \<Rightarrow> task_query" where
  "calendar_query caller startD endD =
     (let q0 = empty_query\<lparr>q_deadline_gte := Some startD, q_deadline_lte := Some endD\<rparr>
      in if caller_role caller = Employee
         then q0\<lparr>q_assignedTo := Some (caller_id caller)\<rparr> else q0)"

definition getCalendarTasks :: "req_user \<Rightarrow> date option \<Rightarrow> date option \<Rightarrow> db \<Rightarrow> calendar_item list response" where
  "getCalendarTasks caller startD endD s =
     (case (startD, endD) of
        (Some a, Some b) \<Rightarrow>
          reply_data 200
            (map (calendar_project (users s))
               (filter (matches no_regex (calendar_query caller a b)) (tasks s)))
      | _ \<Rightarrow> failure 500 (Msg ''Error fetching calendar tasks''))"

section \<open>Double-precision arithmetic and \<open>toFixed\<close>\<close>

text \<open>
  JavaScript numbers are IEEE 754 doubles. A non-negative finite double is modelled by a
  pair \<open>(m, e)\<close> of a mantissa and a binary exponent, with value \<open>m * 2^e\<close>; an
  arithmetic result is rounded to 53 significant bits, ties to even. Overflow and
  subnormal numbers do not arise from the quotient of two counts and its product with
  100.
\<close>

type_synonym dbl = "nat \<times> int"

fun bit_length :: "nat \<Rightarrow> nat" where
  "bit_length n = (if n = 0 then 0 else Suc (bit_length (n div 2)))"

declare bit_length.simps [simp del]

text \<open>\<open>num / den\<close> rounded to the nearest integer, ties to the even one.\<close>

definition round_half_even :: "nat \<Rightarrow> nat \<Rightarrow> nat" where
  "round_half_even num den =
     (let q = num div den; r = num mod den
      in if den < 2 * r \<or> (2 * r = den \<and> odd q) then q + 1 else q)"

definition dbl_round :: "nat \<Rightarrow> int \<Rightarrow> dbl" where
  "dbl_round m e =
     (let b = bit_length m
      in if b \<le> 53 then (m, e)
         else (round_half_even m (2 ^ (b - 53)), e + int (b - 53)))"

definition dbl_of_nat :: "nat \<Rightarrow> dbl" where
  "dbl_of_nat n = dbl_round n 0"

definition dbl_mul :: "dbl \<Rightarrow> dbl \<Rightarrow> dbl" where
  "dbl_mul x y = dbl_round (fst x * fst y) (snd x + snd y)"

text \<open>
  Division of positive mantissas: the quotient is scaled by \<open>2^k\<close> so that its integer
  part has 53 bits, and rounded on the remainder.
\<close>

definition scaled_quotient :: "nat \<Rightarrow> nat \<Rightarrow> int \<Rightarrow> nat \<times> nat" where
  "scaled_quotient a b k =
     (if 0 \<le> k then (a * 2 ^ nat k, b) else (a, b * 2 ^ nat (- k)))"

definition dbl_div :: "dbl \<Rightarrow> dbl \<Rightarrow> dbl" where
  "dbl_div x y =
     (if fst x = 0 then (0, 0)
      else
        let k0 = 53 + int (bit_length (fst y)) - int (bit_length (fst x));
            (n0, d0) = scaled_quotient (fst x) (fst y) k0;
            k = (if 2 ^ 53 \<le> n0 div d0 then k0 - 1 else k0);
            (n, d) = scaled_quotient (fst x) (fst y) k
        in (round_half_even n d, snd x - snd y - k))"

text \<open>
  \<open>Number.prototype.toFixed(2)\<close> for a value below \<open>10^21\<close>: the integer \<open>n\<close> for which
  \<open>n / 100\<close> is nearest to the value, the larger one on a tie, printed in decimal with
  at least three digits and a point before the last two.
\<close>

definition toFixed2_int :: "dbl \<Rightarrow> nat" where
  "toFixed2_int x =
     (if 0 \<le> snd x then fst x * 2 ^ nat (snd x) * 100
      else (200 * fst x + 2 ^ nat (- snd x)) div 2 ^ (nat (- snd x) + 1))"

definition digit_char :: "nat \<Rightarrow> char" where
  "digit_char d = ''0123456789'' ! d"

fun decimal :: "nat \<Rightarrow> string" where
  "decimal n = (if n < 10 then [digit_char n] else decimal (n div 10) @ [digit_char (n mod 10)])"

declare decimal.simps [simp del]

definition padStart :: "nat \<Rightarrow> char \<Rightarrow> string \<Rightarrow> string" where
  "padStart n c s = replicate (n - length s) c @ s"

definition fixed2_string :: "nat \<Rightarrow> string" where
  "fixed2_string n =
     (let m = padStart 3 CHR ''0'' (decimal n)
      in take (length m - 2) m @ ''.'' @ drop (length m - 2) m)"

definition toFixed2 :: "dbl \<Rightarrow> string" where
  "toFixed2 x = fixed2_string (toFixed2_int x)"

text \<open>The rational number a double stands for.\<close>

definition dbl_value :: "dbl \<Rightarrow> rat" where
  "dbl_value x = of_nat (fst x) * 2 powi (snd x)"

text \<open>
  The rate in the words of the specification, for comparison: the exact quotient times
  100, rounded to two decimal places, a tie going upwards or to the even neighbour.
\<close>

definition exact_rate_half_up :: "nat \<Rightarrow> nat \<Rightarrow> string" where
  "exact_rate_half_up totalTasks completedTasks =
     fixed2_string (nat \<lfloor>of_nat completedTasks / of_nat totalTasks * 100 * 100 + (1 / 2 :: rat)\<rfloor>)"

definition exact_rate_half_even :: "nat \<Rightarrow> nat \<Rightarrow> string" where
  "exact_rate_half_even totalTasks completedTasks =
     fixed2_string (round_half_even (completedTasks * 100 * 100) totalTasks)"

section \<open>Task controller: statistics\<close>

text \<open>The rate is the number 0 or the string that \<open>toFixed\<close> returns.\<close>

datatype rate = RateNumber int | RateString string

definition completionRate_of :: "nat \<Rightarrow> nat \<Rightarrow> rate" where
  "completionRate_of totalTasks completedTasks =
     (if totalTasks > 0
      then RateString (toFixed2 (dbl_mul (dbl_div (dbl_of_nat completedTasks) (dbl_of_nat totalTasks))
                                        (dbl_of_nat 100)))
      else RateNumber 0)"

text \<open>
  \<open>Task.aggregate\<close> sends its pipeline to the server as written: unlike \<open>find\<close> and
  \<open>countDocuments\<close>, it does not cast the filter to the schema. The handlers set
  \<open>assignedTo\<close> to \<open>req.user.id\<close>, a string, and a stored \<open>assignedTo\<close> is an ObjectId:
  a \<open>$match\<close> with that key selects no document. The other keys of the filters hold
  strings and dates and compare as they do in a query.
\<close>

definition aggregate_match :: "task_query \<Rightarrow> task list \<Rightarrow> task list" where
  "aggregate_match q ts =
     (if q_assignedTo q \<noteq> None then [] else filter (matches no_regex q) ts)"

text \<open>\<open>$group\<close> with \<open>$sum: 1\<close>: one entry per distinct key, with its number of documents.\<close>

definition group_count :: "'k list \<Rightarrow> ('k \<times> nat) list" where
  "group_count ks = map (\<lambda>k. (k, count_list ks k)) (remdups ks)"

definition day_ms :: int where
  "day_ms = 86400000"

text \<open>\<open>$dateToString\<close> with format \<open>%Y-%m-%d\<close> names the UTC day, here by its number.\<close>

definition day_of :: "date \<Rightarrow> int" where
  "day_of d = d div day_ms"

record task_stats =
  totalTasks :: nat
  completedTasks :: nat
  pendingTasks :: nat
  inProgressTasks :: nat
  overdueTasks :: nat
  completionRate :: rate
  priorityStats :: "(priority \<times> nat) list"
  taskTrends :: "((int \<times> status) \<times> nat) list"

definition stats_query :: "req_user \<Rightarrow> task_query" where
  "stats_query caller =
     (if caller_role caller = Employee
      then empty_query\<lparr>q_assignedTo := Some (caller_id caller)\<rparr> else empty_query)"

definition getTaskStats :: "date \<Rightarrow> req_user \<Rightarrow> db \<Rightarrow> task_stats response" where
  "getTaskStats now caller s =
     (let query = stats_query caller;
          ts = tasks s;
          total_n = countDocuments query ts;
          completed_n = countDocuments (query\<lparr>q_status := Some (StatusEq ''completed'')\<rparr>) ts;
          pending_n = countDocuments (query\<lparr>q_status := Some (StatusEq ''pending'')\<rparr>) ts;
          inProgress_n = countDocuments (query\<lparr>q_status := Some (StatusEq ''in-progress'')\<rparr>) ts;
          overdue_n = countDocuments
            (query\<lparr>q_status := Some (StatusNe ''completed''), q_deadline_lt := Some now\<rparr>) ts;
          prio = group_count (map priority (aggregate_match query ts));
          sevenDaysAgo = now - 7 * day_ms;
          trends = sort_key (\<lambda>g. fst (fst g))
            (group_count (map (\<lambda>t. (day_of (createdAt t), status t))
               (aggregate_match (query\<lparr>q_createdAt_gte := Some sevenDaysAgo\<rparr>) ts)))
      in reply_data 200
           \<lparr>totalTasks = total_n, completedTasks = completed_n, pendingTasks = pending_n,
            inProgressTasks = inProgress_n, overdueTasks = overdue_n,
            completionRate = completionRate_of total_n completed_n,
            priorityStats = prio, taskTrends = trends\<rparr>)"

section \<open>Employee model and controller\<close>

text \<open>
  \<open>employeeSchema.pre('save')\<close>: a document without an identifier receives \<open>EMP\<close> followed
  by the number of stored Employee documents plus one, in decimal, left-padded with
  zeros to four characters.
\<close>

definition generate_employeeId :: "nat \<Rightarrow> string" where
  "generate_employeeId n = ''EMP'' @ padStart 4 CHR ''0'' (decimal (n + 1))"

definition employee_pre_save :: "employee list \<Rightarrow> string option \<Rightarrow> string" where
  "employee_pre_save es eid =
     (if truthy eid then (case eid of Some x \<Rightarrow> x | None \<Rightarrow> [])
      else generate_employeeId (length es))"

text \<open>
  \<open>Employee.create\<close>: the save hook, then the insert, which the unique index on
  \<open>employeeId\<close> refuses when a stored document holds the same identifier.
\<close>

definition Employee_create :: "date \<Rightarrow> oid \<Rightarrow> oid \<Rightarrow> string option \<Rightarrow> string option \<Rightarrow> string list \<Rightarrow> employee list \<Rightarrow> db_error + (employee \<times> employee list)" where
  "Employee_create now i uid pos ph sk es =
     (let e = \<lparr>employee_oid = i, employee_user = uid,
               employeeId = employee_pre_save es None,
               position = map_option trim pos, phone = map_option trim ph, skills = sk,
               tasksCompleted = 0, employee_createdAt = now\<rparr>
      in if employeeId e \<in> set (map employeeId es) then Inl (DuplicateKey ''employeeId'')
         else Inr (e, es @ [e]))"

record create_employee_body =
  new_name :: string
  new_email :: string
  new_password :: string
  new_department :: "string option"
  new_position :: "string option"
  new_phone :: "string option"
  new_skills :: "string list option"

record created_employee =
  created_user :: user
  created_employeeId :: string
  created_position :: "string option"

text \<open>
  \<open>createEmployee\<close>: the email check, \<open>User.create\<close>, then \<open>Employee.create\<close>. An error of
  the second step is answered with 500 and leaves the User stored. The validators of the
  User model are not among the sources; \<open>User.create\<close> is taken to accept the request.
\<close>

definition createEmployee :: "date \<Rightarrow> create_employee_body \<Rightarrow> db \<Rightarrow> created_employee response \<times> db" where
  "createEmployee now b s =
     (case find (\<lambda>u. email u = new_email b) (users s) of
        Some u \<Rightarrow> (failure 400 (Msg ''User already exists with this email''), s)
      | None \<Rightarrow>
          let u = \<lparr>user_id = next_oid s, user_name = new_name b, email = new_email b,
                   password = new_password b, user_role = Employee,
                   department = new_department b, isActive = True, user_createdAt = now\<rparr>;
              s1 = s\<lparr>users := users s @ [u], next_oid := Suc (next_oid s)\<rparr>
          in case Employee_create now (next_oid s1) (user_id u) (new_position b) (new_phone b)
                    (case new_skills b of None \<Rightarrow> [] | Some sk \<Rightarrow> sk) (employees s1) of
               Inl e \<Rightarrow> (failure 500 (ErrorMessage e), s1)
             | Inr (e, es') \<Rightarrow>
                 (reply 201 ''Employee created successfully''
                    \<lparr>created_user = u, created_employeeId = employeeId e,
                     created_position = position e\<rparr>,
                  s1\<lparr>employees := es', next_oid := Suc (next_oid s1)\<rparr>))"

text \<open>
  \<open>deleteEmployee\<close>: the Employee document of the user, the User, then every task
  assigned to the user is set to \<open>cancelled\<close>.
\<close>

definition deleteEmployee :: "oid \<Rightarrow> db \<Rightarrow> unit response \<times> db" where
  "deleteEmployee i s =
     (case findById user_id i (users s) of
        None \<Rightarrow> (failure 404 (Msg ''Employee not found''), s)
      | Some u \<Rightarrow>
          (reply_done 200 ''Employee deleted successfully'',
           s\<lparr>employees := delete_first (\<lambda>e. employee_user e = i) (employees s),
             users := delete_first (\<lambda>u. user_id u = i) (users s),
             tasks := updateMany (\<lambda>t. assignedTo t = i) (\<lambda>t. t\<lparr>status := Cancelled\<rparr>) (tasks s)\<rparr>))"

text \<open>\<open>getEmployee\<close>: the user without the password, the profile, the user's tasks.\<close>

record public_user =
  pub_id :: oid
  pub_name :: string
  pub_email :: string
  pub_role :: role
  pub_department :: "string option"
  pub_isActive :: bool
  pub_createdAt :: date

record employee_view =
  view_user :: public_user
  employeeDetails :: "employee option"
  view_tasks :: "populated_task list"

definition without_password :: "user \<Rightarrow> public_user" where
  "without_password u =
     \<lparr>pub_id = user_id u, pub_name = user_name u, pub_email = email u, pub_role = user_role u,
      pub_department = department u, pub_isActive = isActive u,
      pub_createdAt = user_createdAt u\<rparr>"

definition populate_assignedBy :: "user list \<Rightarrow> task \<Rightarrow> populated_task" where
  "populate_assignedBy us t =
     \<lparr>doc = t, assignedTo_user = None, assignedBy_user = populate False us (assignedBy t)\<rparr>"

definition getEmployee :: "req_user \<Rightarrow> oid \<Rightarrow> db \<Rightarrow> employee_view response" where
  "getEmployee caller i s =
     (case findById user_id i (users s) of
        None \<Rightarrow> failure 404 (Msg ''Employee not found'')
      | Some u \<Rightarrow>
          reply_data 200
            \<lparr>view_user = without_password u,
             employeeDetails = find (\<lambda>e. employee_user e = user_id u) (employees s),
             view_tasks = map (populate_assignedBy (users s))
                (newest_first (filter (\<lambda>t. assignedTo t = user_id u) (tasks s)))\<rparr>)"

text \<open>
  \<open>routes/employeeRoutes.js\<close>: every route runs \<open>protect\<close>, which supplies the caller;
  \<open>GET /:id\<close> goes to the handler with no \<open>authorize\<close> step.
\<close>

definition route_get_employee :: "req_user \<Rightarrow> oid \<Rightarrow> db \<Rightarrow> employee_view response" where
  "route_get_employee caller i s = getEmployee caller i s"

section \<open>Runs of employee operations\<close>

datatype employee_op = CreateOp date create_employee_body | DeleteOp oid

fun step :: "employee_op \<Rightarrow> db \<Rightarrow> db" where
  "step (CreateOp now b) s = snd (createEmployee now b s)"
| "step (DeleteOp i) s = snd (deleteEmployee i s)"

fun run :: "employee_op list \<Rightarrow> db \<Rightarrow> db" where
  "run [] s = s"
| "run (x # xs) s = run xs (step x s)"

text \<open>The identifiers handed out by the successful creations of a run, in order.\<close>

fun assigned :: "employee_op list \<Rightarrow> db \<Rightarrow> string list" where
  "assigned [] s = []"
| "assigned (CreateOp now b # xs) s =
     (case data (fst (createEmployee now b s)) of
        None \<Rightarrow> assigned xs (step (CreateOp now b) s)
      | Some c \<Rightarrow> created_employeeId c # assigned xs (step (CreateOp now b) s))"
| "assigned (DeleteOp i # xs) s = assigned xs (step (DeleteOp i) s)"

definition is_delete :: "employee_op \<Rightarrow> bool" where
  "is_delete x = (case x of DeleteOp i \<Rightarrow> True | CreateOp now b \<Rightarrow> False)"

definition empty_db :: db where
  "empty_db = \<lparr>users = [], employees = [], tasks = [], next_oid = 0, notifications = []\<rparr>"

text \<open>The number an identifier carries: its decimal digits after the three letters.\<close>

definition digit_value :: "char \<Rightarrow> nat" where
  "digit_value c = of_char c - 48"

definition read_decimal :: "string \<Rightarrow> nat" where
  "read_decimal s = foldl (\<lambda>a c. 10 * a + digit_value c) 0 s"

definition employee_number :: "string \<Rightarrow> nat" where
  "employee_number eid = read_decimal (drop 3 eid)"

text \<open>The stored identifiers are the first generated ones, in order.\<close>

definition counted :: "db \<Rightarrow> bool" where
  "counted s \<longleftrightarrow>
     map employeeId (employees s) = map generate_employeeId [0..<length (employees s)]"

section \<open>Counting the tasks of an assignee\<close>

text \<open>
  The counts \<open>getAllEmployees\<close> takes for a user, \<open>countDocuments({assignedTo})\<close> and
  \<open>countDocuments({assignedTo, status})\<close>, and the count of the user's tasks whose status
  is not a given one.
\<close>

definition assignee_query :: "oid \<Rightarrow> task_query" where
  "assignee_query i = empty_query\<lparr>q_assignedTo := Some i\<rparr>"

definition taskCount :: "oid \<Rightarrow> task list \<Rightarrow> nat" where
  "taskCount i ts = countDocuments (assignee_query i) ts"

definition statusCount :: "oid \<Rightarrow> status \<Rightarrow> task list \<Rightarrow> nat" where
  "statusCount i st ts =
     countDocuments ((assignee_query i)\<lparr>q_status := Some (StatusEq (status_str st))\<rparr>) ts"

definition otherStatusCount :: "oid \<Rightarrow> status \<Rightarrow> task list \<Rightarrow> nat" where
  "otherStatusCount i st ts =
     countDocuments ((assignee_query i)\<lparr>q_status := Some (StatusNe (status_str st))\<rparr>) ts"

section \<open>The store as one caller sees it\<close>

text \<open>The store without the tasks that are assigned to other users.\<close>

definition own_only :: "req_user \<Rightarrow> db \<Rightarrow> db" where
  "own_only caller s = s\<lparr>tasks := filter (\<lambda>t. assignedTo t = caller_id caller) (tasks s)\<rparr>"

section \<open>Example data\<close>

text \<open>A small store on which the theorems below are exercised.\<close>

definition admin_user :: user where
  "admin_user = \<lparr>user_id = 0, user_name = ''Root'', email = ''root@example.com'',
     password = ''x'', user_role = Admin, department = None, isActive = True,
     user_createdAt = 0\<rparr>"

definition alice :: user where
  "alice = \<lparr>user_id = 1, user_name = ''Alice'', email = ''alice@example.com'',
     password = ''x'', user_role = Employee, department = Some ''Ops'', isActive = True,
     user_createdAt = 1\<rparr>"

definition bob :: user where
  "bob = \<lparr>user_id = 2, user_name = ''Bob'', email = ''bob@example.com'',
     password = ''x'', user_role = Employee, department = Some ''Ops'', isActive = True,
     user_createdAt = 2\<rparr>"

definition alice_profile :: employee where
  "alice_profile = \<lparr>employee_oid = 3, employee_user = 1, employeeId = ''EMP0001'',
     position = None, phone = None, skills = [], tasksCompleted = 0,
     employee_createdAt = 1\<rparr>"

definition bob_profile :: employee where
  "bob_profile = \<lparr>employee_oid = 4, employee_user = 2, employeeId = ''EMP0002'',
     position = None, phone = None, skills = [], tasksCompleted = 1,
     employee_createdAt = 2\<rparr>"

definition report_task :: task where
  "report_task = \<lparr>task_id = 10, title = ''Report'', description = ''Write it'',
     assignedTo = 1, assignedBy = 0, priority = Medium, status = Pending, deadline = 100,
     startDate = 50, completedDate = None, comments = [], attachments = [], tags = [],
     notificationSent = False, createdAt = 50, updatedAt = 50\<rparr>"

definition audit_task :: task where
  "audit_task = \<lparr>task_id = 11, title = ''Audit'', description = ''Check it'',
     assignedTo = 2, assignedBy = 0, priority = High, status = Completed, deadline = 200,
     startDate = 60, completedDate = None, comments = [], attachments = [], tags = [],
     notificationSent = False, createdAt = 60, updatedAt = 60\<rparr>"

definition example_db :: db where
  "example_db = \<lparr>users = [admin_user, alice, bob], employees = [alice_profile, bob_profile],
     tasks = [report_task, audit_task], next_oid = 12, notifications = []\<rparr>"

definition as_admin :: req_user where
  "as_admin = \<lparr>caller_id = 0, caller_role = Admin, caller_name = ''Root''\<rparr>"

definition as_alice :: req_user where
  "as_alice = \<lparr>caller_id = 1, caller_role = Employee, caller_name = ''Alice''\<rparr>"

definition as_bob :: req_user where
  "as_bob = \<lparr>caller_id = 2, caller_role = Employee, caller_name = ''Bob''\<rparr>"

text \<open>
  A cast for the examples: the 24 hexadecimal digits of an ObjectId, read as a number.
  Any other string does not cast.
\<close>

definition hex_value :: "char \<Rightarrow> nat option" where
  "hex_value c =
     (let n = (of_char c :: nat)
      in if 48 \<le> n \<and> n \<le> 57 then Some (n - 48)
         else if 97 \<le> n \<and> n \<le> 102 then Some (n - 87)
         else if 65 \<le> n \<and> n \<le> 70 then Some (n - 55)
         else None)"

definition objectId_of_hex :: "string \<Rightarrow> oid option" where
  "objectId_of_hex x =
     (if length x = 24 \<and> list_all (\<lambda>c. hex_value c \<noteq> None) x
      then Some (foldl (\<lambda>a c. 16 * a + (case hex_value c of None \<Rightarrow> 0 | Some d \<Rightarrow> d)) 0 x)
      else None)"

text \<open>A request that assigns a task to the admin, and one whose assignee is no ObjectId.\<close>

definition example_task_body :: create_task_body where
  "example_task_body = \<lparr>body_title = Some ''Plan'', body_description = Some ''Draft it'',
     body_assignedTo = Some ''000000000000000000000000'', body_priority = None,
     body_deadline = Some 300, body_tags = None\<rparr>"

definition malformed_task_body :: create_task_body where
  "malformed_task_body = example_task_body\<lparr>body_assignedTo := Some ''not-an-id''\<rparr>"

definition example_employee_body :: "string \<Rightarrow> create_employee_body" where
  "example_employee_body mail = \<lparr>new_name = ''New'', new_email = mail, new_password = ''pw'',
     new_department = None, new_position = None, new_phone = None, new_skills = None\<rparr>"

text \<open>A body that sets the status, and with it other fields of the task.\<close>

definition completing_body :: update_task_body where
  "completing_body = (status_only (Some ''completed''))
     \<lparr>upd_title := Some ''Hijacked'', upd_assignedTo := Some 2, upd_deadline := Some 0\<rparr>"

text \<open>Three creations, the deletion of the first two users created, and a creation.\<close>

definition reuse_run :: "employee_op list" where
  "reuse_run =
     [CreateOp 1 (example_employee_body ''a@example.com''),
      CreateOp 2 (example_employee_body ''b@example.com''),
      CreateOp 3 (example_employee_body ''c@example.com''),
      DeleteOp 0, DeleteOp 2,
      CreateOp 4 (example_employee_body ''d@example.com'')]"

definition create_run :: "employee_op list" where
  "create_run =
     [CreateOp 1 (example_employee_body ''a@example.com''),
      CreateOp 2 (example_employee_body ''a@example.com''),
      CreateOp 3 (example_employee_body ''c@example.com'')]"

text \<open>A list request that asks for Bob's tasks, and an engine that accepts no pattern.\<close>

definition bobs_tasks_params :: list_params where
  "bobs_tasks_params = \<lparr>p_status = None, p_priority = None, p_assignedTo = Some 2,
     p_search = None, p_page = 1, p_limit = 10\<rparr>"

text \<open>Two creations and the deletion of the first user created.\<close>

definition collide_run :: "employee_op list" where
  "collide_run =
     [CreateOp 1 (example_employee_body ''a@example.com''),
      CreateOp 2 (example_employee_body ''b@example.com''),
      DeleteOp 0]"

section \<open>Create-task validation\<close>

lemma createTask_unresolved:
  assumes "\<not> resolves_to_employee castObjectId (body_assignedTo b) s"
  shows "createTask castObjectId now caller b s =
           (if malformed castObjectId (body_assignedTo b)
            then (failure 500 (ErrorMessage (CastError ''_id'')), s)
            else (failure 400 (Msg ''Invalid employee ID''), s))"
  using assms
  by (auto simp: createTask_def User_findById_def resolves_to_employee_def malformed_def
      split: option.splits)

lemma objectId_of_hex_zero:
  "objectId_of_hex ''000000000000000000000000'' = Some 0"
  by (simp add: objectId_of_hex_def hex_value_def)

lemma objectId_of_hex_not_an_id:
  "objectId_of_hex ''not-an-id'' = None"
  by (simp add: objectId_of_hex_def)

text \<open>
  C5, as the claim has it, fails on an identifier that is no ObjectId. The string
  \<open>not-an-id\<close> resolves to no user; the lookup throws, and the answer is 500, not 400.
\<close>

theorem createTask_malformed_counterexample:
  "\<not> resolves_to_employee objectId_of_hex (body_assignedTo malformed_task_body) example_db
   \<and> status_code (fst (createTask objectId_of_hex 70 as_admin malformed_task_body example_db))
       = 500
   \<and> status_code (fst (createTask objectId_of_hex 70 as_admin malformed_task_body example_db))
       \<noteq> 400
   \<and> snd (createTask objectId_of_hex 70 as_admin malformed_task_body example_db) = example_db"
  by (simp add: createTask_def User_findById_def resolves_to_employee_def
      malformed_task_body_def example_task_body_def objectId_of_hex_not_an_id failure_def)

text \<open>
  C5, amended. A create-task request whose assignedTo does not resolve to an existing
  User with role employee is answered with success=false, and the state is left as it
  was: no task is stored and no notification is attempted. The status is 400 when the
  identifier is absent or casts to an ObjectId, and 500 when it does not cast.
\<close>

theorem createTask_unresolved_assignee:
  assumes "\<not> resolves_to_employee castObjectId (body_assignedTo b) s"
  shows "\<not> success (fst (createTask castObjectId now caller b s))
       \<and> snd (createTask castObjectId now caller b s) = s
       \<and> tasks (snd (createTask castObjectId now caller b s)) = tasks s
       \<and> notifications (snd (createTask castObjectId now caller b s)) = notifications s
       \<and> status_code (fst (createTask castObjectId now caller b s))
           = (if malformed castObjectId (body_assignedTo b) then 500 else 400)"
  by (simp add: createTask_unresolved [OF assms] failure_def)

text \<open>
  An admin is not an employee: assigning a task to user 0 of the example is refused
  with 400, and nothing is stored.
\<close>

theorem createTask_unresolved_assignee_witness:
  "\<not> resolves_to_employee objectId_of_hex (body_assignedTo example_task_body) example_db
   \<and> \<not> malformed objectId_of_hex (body_assignedTo example_task_body)
   \<and> status_code (fst (createTask objectId_of_hex 70 as_admin example_task_body example_db)) = 400
   \<and> \<not> success (fst (createTask objectId_of_hex 70 as_admin example_task_body example_db))
   \<and> tasks (snd (createTask objectId_of_hex 70 as_admin example_task_body example_db))
       = tasks example_db
   \<and> notifications (snd (createTask objectId_of_hex 70 as_admin example_task_body example_db))
       = notifications example_db"
proof -
  have h: "\<not> resolves_to_employee objectId_of_hex (body_assignedTo example_task_body) example_db"
    by (simp add: resolves_to_employee_def example_task_body_def objectId_of_hex_zero
        example_db_def findById_def admin_user_def alice_def bob_def)
  have m: "\<not> malformed objectId_of_hex (body_assignedTo example_task_body)"
    by (simp add: malformed_def example_task_body_def objectId_of_hex_zero)
  from createTask_unresolved_assignee [OF h, of 70 as_admin] h m show ?thesis by simp
qed

section \<open>Updating a task\<close>

text \<open>Two tasks that differ in the status at most.\<close>

lemma update_first_all2:
  assumes "find P xs = Some x" and "R x y" and "\<And>z. R z z"
  shows "list_all2 R xs (update_first P (\<lambda>_. y) xs)"
  using assms
proof (induction xs)
  case Nil
  then show ?case by simp
next
  case (Cons a xs)
  show ?case
  proof (cases "P a")
    case True
    with Cons.prems have "a = x" by simp
    with True Cons.prems show ?thesis
      by (simp add: list_all2_refl)
  next
    case False
    with Cons show ?thesis by simp
  qed
qed

lemma find_update_first:
  assumes "find P xs = Some x" and "P y"
  shows "find P (update_first P (\<lambda>_. y) xs) = Some y"
  using assms by (induction xs) (auto split: if_splits)

lemma apply_status_only:
  assumes "apply_task_update (status_only st) t = Inr t'"
  shows "t' = t\<lparr>status := status t'\<rparr>"
  using assms
  by (auto simp: apply_task_update_def status_only_def set_opt_def split: option.splits)

lemma upd_status_status_only:
  "upd_status (status_only st) = st"
  by (simp add: status_only_def)

lemma apply_status_completed:
  "apply_task_update (status_only (Some ''completed'')) t = Inr (t\<lparr>status := Completed\<rparr>)"
  by (simp add: apply_task_update_def status_only_def set_opt_def parse_status_def)

lemma updateTask_forbidden:
  assumes "caller_role caller = Employee" and "findById task_id i (tasks s) = Some t"
    and "assignedTo t \<noteq> caller_id caller"
  shows "updateTask caller i body s =
           (failure 403 (Msg ''Not authorized to update this task''), s)"
  using assms by (simp add: updateTask_def)

lemma updateTask_employee_tasks:
  assumes "caller_role caller = Employee" and "findById task_id i (tasks s) = Some t"
    and "assignedTo t = caller_id caller"
  shows "list_all2 (\<lambda>old new. new\<lparr>status := status old\<rparr> = old)
           (tasks s) (tasks (snd (updateTask caller i body s)))"
proof (cases "apply_task_update (status_only (upd_status body)) t")
  case (Inl e)
  with assms have "snd (updateTask caller i body s) = s"
    by (simp add: updateTask_def findByIdAndUpdate_def)
  then show ?thesis by (simp add: list_all2_refl)
next
  case (Inr t')
  from apply_status_only [OF Inr] have "t'\<lparr>status := status t\<rparr> = t"
    by (metis task.surjective task.update_convs(7))
  moreover from assms(2) have "find (\<lambda>x. task_id x = i) (tasks s) = Some t"
    by (simp add: findById_def)
  ultimately have "list_all2 (\<lambda>old new. new\<lparr>status := status old\<rparr> = old)
      (tasks s) (update_first (\<lambda>x. task_id x = i) (\<lambda>_. t') (tasks s))"
    by (intro update_first_all2) auto
  moreover from assms Inr
  have "tasks (snd (updateTask caller i body s)) =
          update_first (\<lambda>x. task_id x = i) (\<lambda>_. t') (tasks s)"
    by (simp add: updateTask_def findByIdAndUpdate_def Let_def)
  ultimately show ?thesis by simp
qed

text \<open>
  C7. An employee's update of a task assigned to them leaves every field of every task
  as it was, the status excepted, whatever the body supplies; on a task that is not
  assigned to the caller the answer is 403 and the state is unchanged.
\<close>

theorem updateTask_employee_only_status:
  assumes "caller_role caller = Employee" and "findById task_id i (tasks s) = Some t"
  shows "(assignedTo t = caller_id caller \<longrightarrow>
            list_all2 (\<lambda>old new. new\<lparr>status := status old\<rparr> = old)
              (tasks s) (tasks (snd (updateTask caller i body s))))
       \<and> (assignedTo t \<noteq> caller_id caller \<longrightarrow>
            status_code (fst (updateTask caller i body s)) = 403
            \<and> \<not> success (fst (updateTask caller i body s))
            \<and> snd (updateTask caller i body s) = s)"
  using updateTask_employee_tasks [OF assms] updateTask_forbidden [OF assms]
  by (simp add: failure_def)

lemmas example_defs =
  example_db_def admin_user_def alice_def bob_def alice_profile_def bob_profile_def
  report_task_def audit_task_def as_admin_def as_alice_def as_bob_def

text \<open>
  Alice completes her report with a body that also names a title, an assignee and a
  deadline: the stored task changes in the status only.
\<close>

theorem updateTask_employee_only_status_witness:
  "caller_role as_alice = Employee
   \<and> findById task_id 10 (tasks example_db) = Some report_task
   \<and> assignedTo report_task = caller_id as_alice
   \<and> list_all2 (\<lambda>old new. new\<lparr>status := status old\<rparr> = old)
        (tasks example_db) (tasks (snd (updateTask as_alice 10 completing_body example_db)))
   \<and> tasks (snd (updateTask as_alice 10 completing_body example_db))
       = [report_task\<lparr>status := Completed\<rparr>, audit_task]"
proof -
  have r: "caller_role as_alice = Employee" by (simp add: as_alice_def)
  have f: "findById task_id 10 (tasks example_db) = Some report_task"
    by (simp add: findById_def example_defs)
  have a: "assignedTo report_task = caller_id as_alice" by (simp add: example_defs)
  have e: "tasks (snd (updateTask as_alice 10 completing_body example_db))
       = [report_task\<lparr>status := Completed\<rparr>, audit_task]"
    by (simp add: updateTask_def findByIdAndUpdate_def findById_def example_defs
        completing_body_def upd_status_status_only apply_status_completed)
  from updateTask_employee_only_status [OF r f, of completing_body] r f a e
  show ?thesis by simp
qed

section \<open>The completed-task counter\<close>

lemma find_update_first_map:
  assumes "find P xs = Some x" and "P (f x)"
  shows "find P (update_first P f xs) = Some (f x)"
  using assms by (induction xs) (auto split: if_splits)

lemma find_inc_tasksCompleted:
  assumes "find (\<lambda>e. employee_user e = u) es = Some e"
  shows "find (\<lambda>e. employee_user e = u) (inc_tasksCompleted u es)
           = Some (e\<lparr>tasksCompleted := tasksCompleted e + 1\<rparr>)"
proof -
  from assms have "employee_user e = u" by (auto simp: find_Some_iff)
  with assms show ?thesis
    unfolding inc_tasksCompleted_def by (intro find_update_first_map) simp_all
qed

lemma updateTask_completed_state:
  assumes "caller_role caller = Employee" and "findById task_id i (tasks s) = Some t"
    and "assignedTo t = caller_id caller" and "upd_status body = Some ''completed''"
  shows "snd (updateTask caller i body s) =
           s\<lparr>tasks := update_first (\<lambda>x. task_id x = i) (\<lambda>_. t\<lparr>status := Completed\<rparr>) (tasks s),
             employees := inc_tasksCompleted (caller_id caller) (employees s)\<rparr>"
  using assms
  by (simp add: updateTask_def findByIdAndUpdate_def apply_status_completed)

lemma updateTask_admin_employees:
  assumes "caller_role caller = Admin"
  shows "employees (snd (updateTask caller i body s)) = employees s"
  using assms
  by (auto simp: updateTask_def split: option.splits sum.splits prod.splits)

text \<open>
  C10. When the assignee, an employee, sends an update whose status is \<open>completed\<close>, the
  caller's Employee record has its \<open>tasksCompleted\<close> raised by exactly 1, whatever the
  status of the task was before; sending it again raises it again, so that one task can
  count twice. An update by an admin leaves every counter as it was.
\<close>

theorem updateTask_completed_counter:
  "(caller_role caller = Employee \<and> findById task_id i (tasks s) = Some t
      \<and> assignedTo t = caller_id caller \<and> upd_status body = Some ''completed''
      \<and> find (\<lambda>e. employee_user e = caller_id caller) (employees s) = Some e
    \<longrightarrow> employees (snd (updateTask caller i body s))
          = inc_tasksCompleted (caller_id caller) (employees s)
      \<and> find (\<lambda>e. employee_user e = caller_id caller)
            (employees (snd (updateTask caller i body s)))
          = Some (e\<lparr>tasksCompleted := tasksCompleted e + 1\<rparr>)
      \<and> find (\<lambda>e. employee_user e = caller_id caller)
            (employees (snd (updateTask caller i body (snd (updateTask caller i body s)))))
          = Some (e\<lparr>tasksCompleted := tasksCompleted e + 2\<rparr>))
   \<and> (caller_role caller = Admin
    \<longrightarrow> employees (snd (updateTask caller i body s)) = employees s)"
proof (intro conjI impI)
  assume "caller_role caller = Admin"
  then show "employees (snd (updateTask caller i body s)) = employees s"
    by (rule updateTask_admin_employees)
next
  assume h: "caller_role caller = Employee \<and> findById task_id i (tasks s) = Some t
      \<and> assignedTo t = caller_id caller \<and> upd_status body = Some ''completed''
      \<and> find (\<lambda>e. employee_user e = caller_id caller) (employees s) = Some e"
  let ?u = "caller_id caller"
  let ?s1 = "snd (updateTask caller i body s)"
  let ?t1 = "t\<lparr>status := Completed\<rparr>"
  from h have s1: "?s1 = s\<lparr>tasks := update_first (\<lambda>x. task_id x = i) (\<lambda>_. ?t1) (tasks s),
             employees := inc_tasksCompleted ?u (employees s)\<rparr>"
    by (intro updateTask_completed_state) simp_all
  show e1: "employees ?s1 = inc_tasksCompleted ?u (employees s)"
    by (simp add: s1)
  from h have f1: "find (\<lambda>e. employee_user e = ?u) (employees ?s1)
      = Some (e\<lparr>tasksCompleted := tasksCompleted e + 1\<rparr>)"
    by (simp add: e1 find_inc_tasksCompleted)
  then show "find (\<lambda>e. employee_user e = ?u) (employees ?s1)
      = Some (e\<lparr>tasksCompleted := tasksCompleted e + 1\<rparr>)" .
  from h have ft: "find (\<lambda>x. task_id x = i) (tasks s) = Some t"
    by (simp add: findById_def)
  then have "task_id t = i" by (auto simp: find_Some_iff)
  with ft have "find (\<lambda>x. task_id x = i) (tasks ?s1) = Some ?t1"
    by (simp add: s1 find_update_first)
  then have t1: "findById task_id i (tasks ?s1) = Some ?t1"
    by (simp add: findById_def)
  from h have "snd (updateTask caller i body ?s1) =
      ?s1\<lparr>tasks := update_first (\<lambda>x. task_id x = i) (\<lambda>_. ?t1\<lparr>status := Completed\<rparr>) (tasks ?s1),
          employees := inc_tasksCompleted ?u (employees ?s1)\<rparr>"
    by (intro updateTask_completed_state t1) simp_all
  then have "employees (snd (updateTask caller i body ?s1))
      = inc_tasksCompleted ?u (employees ?s1)"
    by simp
  with find_inc_tasksCompleted [OF f1]
  show "find (\<lambda>e. employee_user e = ?u) (employees (snd (updateTask caller i body ?s1)))
      = Some (e\<lparr>tasksCompleted := tasksCompleted e + 2\<rparr>)"
    by simp
qed

text \<open>
  Bob's audit is completed already, and his counter stands at 1. He sends the status
  \<open>completed\<close> for it: the counter is 2, and 3 after he sends it again, with one task
  completed.
\<close>

theorem updateTask_completed_counter_witness:
  "caller_role as_bob = Employee \<and> findById task_id 11 (tasks example_db) = Some audit_task
   \<and> status audit_task = Completed \<and> assignedTo audit_task = caller_id as_bob
   \<and> upd_status completing_body = Some ''completed''
   \<and> find (\<lambda>e. employee_user e = caller_id as_bob) (employees example_db) = Some bob_profile
   \<and> tasksCompleted bob_profile = 1
   \<and> find (\<lambda>e. employee_user e = caller_id as_bob)
        (employees (snd (updateTask as_bob 11 completing_body example_db)))
       = Some (bob_profile\<lparr>tasksCompleted := 2\<rparr>)
   \<and> find (\<lambda>e. employee_user e = caller_id as_bob)
        (employees (snd (updateTask as_bob 11 completing_body
           (snd (updateTask as_bob 11 completing_body example_db)))))
       = Some (bob_profile\<lparr>tasksCompleted := 3\<rparr>)"
proof -
  have h: "caller_role as_bob = Employee \<and> findById task_id 11 (tasks example_db) = Some audit_task
      \<and> assignedTo audit_task = caller_id as_bob
      \<and> upd_status completing_body = Some ''completed''
      \<and> find (\<lambda>e. employee_user e = caller_id as_bob) (employees example_db) = Some bob_profile"
    by (simp add: findById_def example_defs completing_body_def status_only_def)
  have c: "status audit_task = Completed \<and> tasksCompleted bob_profile = 1"
    by (simp add: example_defs)
  from updateTask_completed_counter [of as_bob 11 example_db audit_task completing_body bob_profile] h
  have r: "find (\<lambda>e. employee_user e = caller_id as_bob)
        (employees (snd (updateTask as_bob 11 completing_body example_db)))
       = Some (bob_profile\<lparr>tasksCompleted := tasksCompleted bob_profile + 1\<rparr>)
     \<and> find (\<lambda>e. employee_user e = caller_id as_bob)
        (employees (snd (updateTask as_bob 11 completing_body
           (snd (updateTask as_bob 11 completing_body example_db)))))
       = Some (bob_profile\<lparr>tasksCompleted := tasksCompleted bob_profile + 2\<rparr>)"
    by blast
  from r c h show ?thesis by simp
qed

section \<open>The completion date\<close>

text \<open>
  Where the completion date can come from. A new task has none; the save that follows
  a comment does not set one, the status being unmodified; an employee's update leaves
  it as it was. It changes only when an admin's body names \<open>completedDate\<close> itself.
\<close>

lemma new_task_completedDate:
  assumes "new_task now i to by b = Inr t"
  shows "completedDate t = None"
  using assms
  by (auto simp: new_task_def task_pre_save_def Let_def split: option.splits if_splits)

lemma addComment_completedDate:
  "map completedDate (tasks (snd (addComment now caller i text s))) = map completedDate (tasks s)"
proof (cases "findById task_id i (tasks s)")
  case None
  then show ?thesis by (simp add: addComment_def)
next
  case (Some t)
  let ?t2 = "task_pre_save now False
      (t\<lparr>comments := comments t @
         [\<lparr>comment_user = caller_id caller, comment_text = text, comment_createdAt = now\<rparr>]\<rparr>)"
  from Some have "find (\<lambda>x. task_id x = i) (tasks s) = Some t"
    by (simp add: findById_def)
  moreover have "completedDate ?t2 = completedDate t"
    by (simp add: task_pre_save_def)
  ultimately have "list_all2 (\<lambda>old new. completedDate new = completedDate old)
      (tasks s) (update_first (\<lambda>x. task_id x = i) (\<lambda>_. ?t2) (tasks s))"
    by (intro update_first_all2) simp_all
  then have "map completedDate (update_first (\<lambda>x. task_id x = i) (\<lambda>_. ?t2) (tasks s))
      = map completedDate (tasks s)"
    by (simp add: list_all2_conv_all_nth list_eq_iff_nth_eq)
  with Some show ?thesis by (simp add: addComment_def Let_def)
qed

lemma updateTask_employee_completedDate:
  assumes "caller_role caller = Employee"
  shows "map completedDate (tasks (snd (updateTask caller i body s)))
           = map completedDate (tasks s)"
proof (cases "findById task_id i (tasks s)")
  case None
  then show ?thesis by (simp add: updateTask_def)
next
  case (Some t)
  show ?thesis
  proof (cases "assignedTo t = caller_id caller")
    case True
    from updateTask_employee_tasks [OF assms Some True, of body]
    have "list_all2 (\<lambda>old new. completedDate new = completedDate old)
        (tasks s) (tasks (snd (updateTask caller i body s)))"
      by (rule list_all2_mono) (metis task.select_convs(10) task.surjective task.update_convs(7))
    then show ?thesis
      by (simp add: list_all2_conv_all_nth list_eq_iff_nth_eq)
  next
    case False
    with assms Some show ?thesis by (simp add: updateTask_forbidden)
  qed
qed

text \<open>
  C2. The save hook is the only code that sets \<open>completedDate\<close> on a status change, and
  \<open>updateTask\<close> writes through \<open>findByIdAndUpdate\<close>, which does not run it. Alice sets
  her pending report to \<open>completed\<close>, and so does the admin: the stored task is
  completed and has no completion date.
\<close>

theorem updateTask_completed_no_completedDate:
  "map_option (\<lambda>t. (status t, completedDate t))
     (findById task_id 10 (tasks (snd (updateTask as_alice 10 (status_only (Some ''completed''))
        example_db)))) = Some (Completed, None)
   \<and> map_option (\<lambda>t. (status t, completedDate t))
     (findById task_id 10 (tasks (snd (updateTask as_admin 10 (status_only (Some ''completed''))
        example_db)))) = Some (Completed, None)
   \<and> status report_task = Pending"
  by (simp add: updateTask_def findByIdAndUpdate_def findById_def example_defs
      upd_status_status_only apply_status_completed)

section \<open>Deleting an employee\<close>

lemma status_str_inject:
  "status_str a = status_str b \<longleftrightarrow> a = b"
  by (cases a; cases b) simp_all

lemma taskCount_filter:
  "taskCount i ts = length (filter (\<lambda>t. assignedTo t = i) ts)"
  by (simp add: taskCount_def countDocuments_def assignee_query_def matches_def [abs_def]
      holds_def empty_query_def)

lemma statusCount_filter:
  "statusCount i st ts = length (filter (\<lambda>t. assignedTo t = i \<and> status t = st) ts)"
  by (simp add: statusCount_def countDocuments_def assignee_query_def matches_def [abs_def]
      holds_def empty_query_def status_str_inject)

lemma otherStatusCount_filter:
  "otherStatusCount i st ts = length (filter (\<lambda>t. assignedTo t = i \<and> status t \<noteq> st) ts)"
  by (simp add: otherStatusCount_def countDocuments_def assignee_query_def
      matches_def [abs_def] holds_def empty_query_def status_str_inject)

lemma deleteEmployee_tasks:
  assumes "findById user_id i (users s) = Some u"
  shows "tasks (snd (deleteEmployee i s))
           = updateMany (\<lambda>t. assignedTo t = i) (\<lambda>t. t\<lparr>status := Cancelled\<rparr>)
               (tasks s)"
  using assms by (simp add: deleteEmployee_def)

lemma cancel_all_assigned:
  "length (filter (\<lambda>t. assignedTo t = i)
       (updateMany (\<lambda>t. assignedTo t = i) (\<lambda>t. t\<lparr>status := Cancelled\<rparr>) ts))
     = length (filter (\<lambda>t. assignedTo t = i) ts)"
  by (induction ts) (simp_all add: updateMany_def)

lemma cancel_all_cancelled:
  "length (filter (\<lambda>t. assignedTo t = i \<and> status t = Cancelled)
       (updateMany (\<lambda>t. assignedTo t = i) (\<lambda>t. t\<lparr>status := Cancelled\<rparr>) ts))
     = length (filter (\<lambda>t. assignedTo t = i) ts)"
  by (induction ts) (simp_all add: updateMany_def)

lemma cancel_all_other:
  assumes "st \<noteq> Cancelled"
  shows "length (filter (\<lambda>t. assignedTo t = i \<and> status t = st)
       (updateMany (\<lambda>t. assignedTo t = i) (\<lambda>t. t\<lparr>status := Cancelled\<rparr>) ts)) = 0"
  using assms by (auto simp: updateMany_def filter_empty_conv)

lemma split_by_status:
  "length (filter (\<lambda>t. assignedTo t = i) ts)
     = length (filter (\<lambda>t. assignedTo t = i \<and> status t = st) ts)
       + length (filter (\<lambda>t. assignedTo t = i \<and> status t \<noteq> st) ts)"
  by (induction ts) simp_all

text \<open>
  C3, as the claim has it, fails on the completed tasks. Bob has one completed task;
  after Bob is deleted he has none.
\<close>

theorem deleteEmployee_completed_counterexample:
  "findById user_id 2 (users example_db) = Some bob
   \<and> statusCount 2 Completed (tasks example_db) = 1
   \<and> statusCount 2 Completed (tasks (snd (deleteEmployee 2 example_db))) = 0
   \<and> \<not> (statusCount 2 Completed (tasks (snd (deleteEmployee 2 example_db)))
          = statusCount 2 Completed (tasks example_db))"
  by (simp add: statusCount_filter deleteEmployee_def findById_def updateMany_def
      example_defs)

text \<open>
  C3, amended. After an employee is deleted, no task is removed and the user has as
  many tasks as before; every one of them is cancelled, so that the number of the
  user's cancelled tasks grows by the number that were not cancelled before, and the
  numbers of the user's completed, pending and in-progress tasks are 0.
\<close>

theorem deleteEmployee_cancels_tasks:
  assumes "findById user_id i (users s) = Some u"
  shows "length (tasks (snd (deleteEmployee i s))) = length (tasks s)
       \<and> taskCount i (tasks (snd (deleteEmployee i s))) = taskCount i (tasks s)
       \<and> statusCount i Cancelled (tasks (snd (deleteEmployee i s)))
           = statusCount i Cancelled (tasks s) + otherStatusCount i Cancelled (tasks s)
       \<and> statusCount i Completed (tasks (snd (deleteEmployee i s))) = 0
       \<and> statusCount i Pending (tasks (snd (deleteEmployee i s))) = 0
       \<and> statusCount i InProgress (tasks (snd (deleteEmployee i s))) = 0"
proof -
  have "length (updateMany (\<lambda>t. assignedTo t = i) (\<lambda>t. t\<lparr>status := Cancelled\<rparr>)
        (tasks s)) = length (tasks s)"
    by (simp add: updateMany_def)
  moreover have "statusCount i Cancelled
        (updateMany (\<lambda>t. assignedTo t = i) (\<lambda>t. t\<lparr>status := Cancelled\<rparr>) (tasks s))
      = statusCount i Cancelled (tasks s) + otherStatusCount i Cancelled (tasks s)"
    using split_by_status [of i "tasks s" Cancelled]
    by (simp add: statusCount_filter otherStatusCount_filter cancel_all_cancelled)
  ultimately show ?thesis
    by (simp add: deleteEmployee_tasks [OF assms] taskCount_filter cancel_all_assigned
        statusCount_filter cancel_all_other)
qed

theorem deleteEmployee_cancels_tasks_witness:
  "findById user_id 2 (users example_db) = Some bob
   \<and> taskCount 2 (tasks example_db) = 1
   \<and> otherStatusCount 2 Cancelled (tasks example_db) = 1
   \<and> taskCount 2 (tasks (snd (deleteEmployee 2 example_db))) = 1
   \<and> statusCount 2 Cancelled (tasks (snd (deleteEmployee 2 example_db))) = 1
   \<and> statusCount 2 Completed (tasks (snd (deleteEmployee 2 example_db))) = 0"
proof -
  have h: "findById user_id 2 (users example_db) = Some bob"
    by (simp add: findById_def example_defs)
  have c: "taskCount 2 (tasks example_db) = 1 \<and> otherStatusCount 2 Cancelled (tasks example_db) = 1
      \<and> statusCount 2 Cancelled (tasks example_db) = 0"
    by (simp add: taskCount_filter otherStatusCount_filter statusCount_filter example_defs)
  from deleteEmployee_cancels_tasks [OF h] h c show ?thesis by simp
qed

section \<open>Scope of the task queries\<close>

lemma matches_assignedTo:
  assumes "q_assignedTo q = Some i" and "matches rx q t"
  shows "assignedTo t = i"
  using assms by (simp add: matches_def holds_def)

lemma filter_matches_own:
  assumes "q_assignedTo q = Some i"
  shows "filter (\<lambda>t. assignedTo t = i \<and> matches rx q t) ts = filter (matches rx q) ts"
proof -
  have "\<And>t. (assignedTo t = i \<and> matches rx q t) = matches rx q t"
    using matches_assignedTo [OF assms] by blast
  then show ?thesis by simp
qed

lemma task_find_own:
  assumes "q_assignedTo q = Some i"
  shows "task_find rx q (filter (\<lambda>t. assignedTo t = i) ts) = task_find rx q ts"
  by (simp add: task_find_def filter_matches_own [OF assms])

lemma list_query_assignedTo:
  assumes "caller_role caller = Employee"
  shows "q_assignedTo (list_query caller p) = Some (caller_id caller)"
  using assms by (simp add: list_query_def Let_def)

lemma calendar_query_assignedTo:
  assumes "caller_role caller = Employee"
  shows "q_assignedTo (calendar_query caller a b) = Some (caller_id caller)"
  using assms by (simp add: calendar_query_def Let_def)

lemma stats_query_assignedTo:
  assumes "caller_role caller = Employee"
  shows "q_assignedTo (stats_query caller) = Some (caller_id caller)"
  using assms by (simp add: stats_query_def)

lemma getAllTasks_own_only:
  assumes "caller_role caller = Employee"
  shows "getAllTasks rx caller p (own_only caller s) = getAllTasks rx caller p s"
  by (simp add: getAllTasks_def own_only_def Let_def
      task_find_own [OF list_query_assignedTo [OF assms]] split: sum.splits)

lemma getCalendarTasks_own_only:
  assumes "caller_role caller = Employee"
  shows "getCalendarTasks caller a b (own_only caller s) = getCalendarTasks caller a b s"
  by (simp add: getCalendarTasks_def own_only_def
      filter_matches_own [OF calendar_query_assignedTo [OF assms]]
      split: option.splits)

lemma getTaskStats_own_only:
  assumes "caller_role caller = Employee"
  shows "getTaskStats now caller (own_only caller s) = getTaskStats now caller s"
proof -
  have q: "\<And>f. q_assignedTo (stats_query caller) = Some (caller_id caller)"
    by (rule stats_query_assignedTo [OF assms])
  show ?thesis
    by (simp add: getTaskStats_def countDocuments_def own_only_def Let_def q
        filter_matches_own aggregate_match_def)
qed

lemma getAllTasks_items:
  assumes "caller_role caller = Employee" and "data (getAllTasks rx caller p s) = Some r"
    and "x \<in> set (items r)"
  shows "assignedTo (doc x) = caller_id caller"
proof -
  let ?q = "list_query caller p"
  from assms(2) obtain found where f: "task_find rx ?q (tasks s) = Inr found"
    and r: "items r = map (populate_task (users s))
        (apply_limit (p_limit p)
          (drop (nat ((p_page p - 1) * p_limit p)) (newest_first found)))"
    by (auto simp: getAllTasks_def Let_def failure_def split: if_splits sum.splits)
  from f have "found = filter (matches rx ?q) (tasks s)"
    by (auto simp: task_find_def split: if_splits)
  then have own: "\<And>t. t \<in> set found \<Longrightarrow> assignedTo t = caller_id caller"
    using matches_assignedTo [OF list_query_assignedTo [OF assms(1)]] by auto
  from assms(3) r obtain t where x: "x = populate_task (users s) t"
    and t: "t \<in> set (apply_limit (p_limit p)
          (drop (nat ((p_page p - 1) * p_limit p)) (newest_first found)))"
    by auto
  have "set (apply_limit l xs) \<subseteq> set xs" for l and xs :: "task list"
    by (auto simp: apply_limit_def dest: in_set_takeD)
  moreover have "set (drop n (newest_first found)) \<subseteq> set found" for n
    by (auto simp: newest_first_def dest: in_set_dropD)
  ultimately have "t \<in> set found"
    using t by blast
  moreover from x have "doc x = t"
    by (simp add: populate_task_def)
  ultimately show ?thesis
    using own by simp
qed

lemma getCalendarTasks_items:
  assumes "caller_role caller = Employee" and "data (getCalendarTasks caller a b s) = Some r"
    and "x \<in> set r"
  shows "cal_assignedTo x = caller_id caller"
  using assms matches_assignedTo [OF calendar_query_assignedTo [OF assms(1)]]
  by (auto simp: getCalendarTasks_def reply_data_def failure_def calendar_project_def
      split: option.splits)

text \<open>
  C1. For a caller whose role is employee, every task in the answer of the task list
  and of the calendar is assigned to the caller, whatever filters the request carries;
  and the answers of the list, of the statistics and of the calendar are the same as on
  the store that holds the caller's tasks only: no task of another user has an effect
  on any of them.
\<close>

theorem employee_queries_own_tasks:
  assumes "caller_role caller = Employee"
  shows "(\<forall>r. data (getAllTasks rx caller p s) = Some r \<longrightarrow>
            (\<forall>x \<in> set (items r). assignedTo (doc x) = caller_id caller))
       \<and> (\<forall>r. data (getCalendarTasks caller a b s) = Some r \<longrightarrow>
            (\<forall>x \<in> set r. cal_assignedTo x = caller_id caller))
       \<and> getAllTasks rx caller p (own_only caller s) = getAllTasks rx caller p s
       \<and> getTaskStats now caller (own_only caller s) = getTaskStats now caller s
       \<and> getCalendarTasks caller a b (own_only caller s) = getCalendarTasks caller a b s"
  using getAllTasks_items [OF assms] getCalendarTasks_items [OF assms]
    getAllTasks_own_only [OF assms] getTaskStats_own_only [OF assms]
    getCalendarTasks_own_only [OF assms]
  by blast

text \<open>Alice asks for Bob's tasks and receives her own.\<close>

theorem employee_queries_own_tasks_witness:
  "caller_role as_alice = Employee
   \<and> map_option (map doc \<circ> items) (data (getAllTasks no_regex as_alice bobs_tasks_params example_db))
       = Some [report_task]
   \<and> getAllTasks no_regex as_alice bobs_tasks_params (own_only as_alice example_db)
       = getAllTasks no_regex as_alice bobs_tasks_params example_db
   \<and> map_option totalTasks (data (getTaskStats 500 as_alice example_db)) = Some 1
   \<and> map_option priorityStats (data (getTaskStats 500 as_alice example_db)) = Some []"
proof -
  have r: "caller_role as_alice = Employee" by (simp add: as_alice_def)
  have i: "caller_id as_alice = 1" by (simp add: as_alice_def)
  have l: "map_option (map doc \<circ> items)
      (data (getAllTasks no_regex as_alice bobs_tasks_params example_db)) = Some [report_task]"
    by (simp add: getAllTasks_def task_find_def list_query_def bobs_tasks_params_def
        empty_query_def truthy_def matches_def holds_def apply_limit_def newest_first_def
        populate_task_def example_defs)
  have t: "map_option totalTasks (data (getTaskStats 500 as_alice example_db)) = Some 1"
    by (simp add: getTaskStats_def Let_def reply_data_def countDocuments_def stats_query_def
        empty_query_def matches_def holds_def example_defs)
  have g: "map_option priorityStats (data (getTaskStats 500 as_alice example_db)) = Some []"
    by (simp add: getTaskStats_def Let_def reply_data_def stats_query_def aggregate_match_def
        empty_query_def group_count_def as_alice_def)
  from employee_queries_own_tasks [OF r, of no_regex bobs_tasks_params example_db] r i l t g
  show ?thesis by simp
qed

section \<open>The calendar view\<close>

text \<open>The tasks a caller may see: an employee their own, an admin all.\<close>

lemma matches_calendar_query:
  "matches rx (calendar_query caller a b) t
     = (a \<le> deadline t \<and> deadline t \<le> b
        \<and> (caller_role caller = Employee \<longrightarrow> assignedTo t = caller_id caller))"
  by (auto simp: calendar_query_def matches_def holds_def empty_query_def Let_def)

text \<open>
  C8. For a pair of dates, the calendar view answers with the tasks in the caller's
  scope whose deadline lies between the two dates, both included, and with no other
  task; each in the projection to identifier, title, status, priority, deadline and
  assignee.
\<close>

theorem getCalendarTasks_inclusive_range:
  "getCalendarTasks caller (Some a) (Some b) s
     = reply_data 200 (map (calendar_project (users s))
         (filter (\<lambda>t. a \<le> deadline t \<and> deadline t \<le> b
                      \<and> (caller_role caller = Employee \<longrightarrow> assignedTo t = caller_id caller))
            (tasks s)))
   \<and> cal_id (calendar_project us t) = task_id t
   \<and> cal_title (calendar_project us t) = title t
   \<and> cal_status (calendar_project us t) = status t
   \<and> cal_priority (calendar_project us t) = priority t
   \<and> cal_deadline (calendar_project us t) = deadline t
   \<and> cal_assignedTo (calendar_project us t) = assignedTo t"
  by (simp add: getCalendarTasks_def matches_calendar_query [abs_def] calendar_project_def)

text \<open>
  The report is due at 100 and the audit at 200. The range from 100 to 200 holds both
  for the admin and the report alone for Alice; the range from 101 to 199 holds none.
\<close>

theorem getCalendarTasks_inclusive_range_witness:
  "map_option (map cal_id) (data (getCalendarTasks as_admin (Some 100) (Some 200) example_db))
     = Some [10, 11]
   \<and> map_option (map cal_id) (data (getCalendarTasks as_alice (Some 100) (Some 200) example_db))
     = Some [10]
   \<and> map_option (map cal_id) (data (getCalendarTasks as_admin (Some 101) (Some 199) example_db))
     = Some []"
proof -
  have "map_option (map cal_id) (data (getCalendarTasks as_admin (Some 100) (Some 200) example_db))
     = Some [10, 11]"
    using getCalendarTasks_inclusive_range [of as_admin 100 200 example_db]
    by (simp add: reply_data_def calendar_project_def example_defs)
  moreover
  have "map_option (map cal_id) (data (getCalendarTasks as_alice (Some 100) (Some 200) example_db))
     = Some [10]"
    using getCalendarTasks_inclusive_range [of as_alice 100 200 example_db]
    by (simp add: reply_data_def calendar_project_def example_defs)
  moreover
  have "map_option (map cal_id) (data (getCalendarTasks as_admin (Some 101) (Some 199) example_db))
     = Some []"
    using getCalendarTasks_inclusive_range [of as_admin 101 199 example_db]
    by (simp add: reply_data_def calendar_project_def example_defs)
  ultimately show ?thesis by simp
qed

section \<open>Reading one employee\<close>

text \<open>
  C9. The read of one employee does not look at the caller: two callers receive the
  same answer for the same identifier, and for a stored user the answer carries every
  task assigned to that user, newest first.
\<close>

theorem getEmployee_any_caller:
  "route_get_employee c1 i s = route_get_employee c2 i s
   \<and> (findById user_id i (users s) = Some u \<longrightarrow>
        map_option (map doc \<circ> view_tasks) (data (route_get_employee c1 i s))
          = Some (newest_first (filter (\<lambda>t. assignedTo t = i) (tasks s))))"
proof -
  have "user_id u = i" if "findById user_id i (users s) = Some u"
    using that by (auto simp: findById_def find_Some_iff)
  then show ?thesis
    by (auto simp: route_get_employee_def getEmployee_def reply_data_def
        populate_assignedBy_def comp_def)
qed

text \<open>Alice reads Bob's record and receives what the admin receives, Bob's audit included.\<close>

theorem getEmployee_any_caller_witness:
  "findById user_id 2 (users example_db) = Some bob
   \<and> route_get_employee as_alice 2 example_db = route_get_employee as_admin 2 example_db
   \<and> map_option (map doc \<circ> view_tasks) (data (route_get_employee as_alice 2 example_db))
       = Some [audit_task]"
proof -
  have h: "findById user_id 2 (users example_db) = Some bob"
    by (simp add: findById_def example_defs)
  have n: "newest_first (filter (\<lambda>t. assignedTo t = 2) (tasks example_db)) = [audit_task]"
    by (simp add: newest_first_def example_defs)
  from getEmployee_any_caller [of as_alice 2 example_db as_admin bob] h n
  show ?thesis by auto
qed

section \<open>Employee identifiers\<close>

subsection \<open>The number of an identifier\<close>

lemma digit_value_digit_char:
  assumes "d < 10"
  shows "digit_value (digit_char d) = d"
proof -
  from assms have "d \<in> {0, 1, 2, 3, 4, 5, 6, 7, 8, 9}" by auto
  then show ?thesis
    by (auto simp: digit_value_def digit_char_def)
qed

lemma read_decimal_snoc:
  "read_decimal (s @ [c]) = 10 * read_decimal s + digit_value c"
  by (simp add: read_decimal_def)

lemma read_decimal_decimal:
  "read_decimal (decimal n) = n"
proof (induction n rule: decimal.induct)
  case (1 n)
  show ?case
  proof (cases "n < 10")
    case True
    then show ?thesis
      by (simp add: decimal.simps [of n] read_decimal_def digit_value_digit_char)
  next
    case False
    with 1 have "read_decimal (decimal (n div 10)) = n div 10" by simp
    with False show ?thesis
      by (simp add: decimal.simps [of n] read_decimal_snoc digit_value_digit_char)
  qed
qed

lemma read_decimal_zeros:
  "read_decimal (replicate k CHR ''0'' @ s) = read_decimal s"
  by (induction k) (simp_all add: read_decimal_def digit_value_def)

lemma employee_number_generate:
  "employee_number (generate_employeeId n) = n + 1"
  by (simp add: employee_number_def generate_employeeId_def padStart_def
      read_decimal_zeros read_decimal_decimal)

lemma generate_employeeId_inject:
  "generate_employeeId m = generate_employeeId n \<longleftrightarrow> m = n"
proof
  assume "generate_employeeId m = generate_employeeId n"
  then have "employee_number (generate_employeeId m) = employee_number (generate_employeeId n)"
    by simp
  then show "m = n" by (simp add: employee_number_generate)
qed simp

subsection \<open>Stored identifiers are distinct\<close>

lemma set_delete_first:
  "set (delete_first P xs) \<subseteq> set xs"
  by (induction xs) auto

lemma distinct_map_delete_first:
  assumes "distinct (map f xs)"
  shows "distinct (map f (delete_first P xs))"
  using assms
proof (induction xs)
  case Nil
  then show ?case by simp
next
  case (Cons a xs)
  then show ?case
    using set_delete_first [of P xs] by auto
qed

lemma Employee_create_distinct:
  assumes "distinct (map employeeId es)"
    and "Employee_create now i uid pos ph sk es = Inr (e, es')"
  shows "distinct (map employeeId es')"
  using assms by (auto simp: Employee_create_def Let_def split: if_splits)

lemma createEmployee_distinct:
  assumes "distinct (map employeeId (employees s))"
  shows "distinct (map employeeId (employees (snd (createEmployee now b s))))"
proof (cases "find (\<lambda>u. email u = new_email b) (users s)")
  case (Some u)
  with assms show ?thesis by (simp add: createEmployee_def)
next
  case None
  let ?s1 = "s\<lparr>users := users s @
      [\<lparr>user_id = next_oid s, user_name = new_name b, email = new_email b,
        password = new_password b, user_role = Employee, department = new_department b,
        isActive = True, user_createdAt = now\<rparr>], next_oid := Suc (next_oid s)\<rparr>"
  let ?r = "Employee_create now (Suc (next_oid s)) (next_oid s) (new_position b) (new_phone b)
      (case new_skills b of None \<Rightarrow> [] | Some sk \<Rightarrow> sk) (employees s)"
  show ?thesis
  proof (cases ?r)
    case (Inl err)
    with None assms show ?thesis by (simp add: createEmployee_def Let_def)
  next
    case (Inr p)
    obtain e es' where p: "p = (e, es')" by (cases p)
    with Inr assms have "distinct (map employeeId es')"
      by (auto intro: Employee_create_distinct)
    with None Inr p show ?thesis by (simp add: createEmployee_def Let_def)
  qed
qed

lemma deleteEmployee_distinct:
  assumes "distinct (map employeeId (employees s))"
  shows "distinct (map employeeId (employees (snd (deleteEmployee i s))))"
  using assms
  by (auto simp: deleteEmployee_def distinct_map_delete_first split: option.splits)

lemma step_distinct:
  assumes "distinct (map employeeId (employees s))"
  shows "distinct (map employeeId (employees (step x s)))"
  using assms by (cases x) (simp_all add: createEmployee_distinct deleteEmployee_distinct)

lemma run_distinct:
  assumes "distinct (map employeeId (employees s))"
  shows "distinct (map employeeId (employees (run xs s)))"
  using assms by (induction xs arbitrary: s) (simp_all add: step_distinct)

subsection \<open>Creations alone count upwards\<close>

lemma counted_fresh:
  assumes "counted s"
  shows "generate_employeeId (length (employees s)) \<notin> set (map employeeId (employees s))"
proof -
  from assms have "set (map employeeId (employees s))
      = generate_employeeId ` {0..<length (employees s)}"
    by (simp add: counted_def)
  then show ?thesis by (auto simp: generate_employeeId_inject)
qed

lemma createEmployee_counted:
  assumes "counted s"
  shows "(data (fst (createEmployee now b s)) = None
            \<and> employees (snd (createEmployee now b s)) = employees s)
       \<or> (\<exists>c e. data (fst (createEmployee now b s)) = Some c
            \<and> created_employeeId c = generate_employeeId (length (employees s))
            \<and> employeeId e = generate_employeeId (length (employees s))
            \<and> employees (snd (createEmployee now b s)) = employees s @ [e])"
proof (cases "find (\<lambda>u. email u = new_email b) (users s)")
  case (Some u)
  then show ?thesis by (simp add: createEmployee_def failure_def)
next
  case None
  from counted_fresh [OF assms] None show ?thesis
    by (simp add: createEmployee_def Employee_create_def employee_pre_save_def truthy_def
        Let_def reply_def)
qed

lemma counted_snoc:
  assumes "counted s" and "employees s' = employees s @ [e]"
    and "employeeId e = generate_employeeId (length (employees s))"
  shows "counted s'"
  using assms by (simp add: counted_def)

lemma assigned_creations:
  assumes "\<forall>x \<in> set xs. \<not> is_delete x" and "counted s"
  shows "counted (run xs s)
       \<and> length (employees s) \<le> length (employees (run xs s))
       \<and> assigned xs s
           = map generate_employeeId [length (employees s)..<length (employees (run xs s))]"
  using assms
proof (induction xs arbitrary: s)
  case Nil
  then show ?case by simp
next
  case (Cons x xs)
  from Cons.prems obtain now b where x: "x = CreateOp now b"
    by (cases x) (auto simp: is_delete_def)
  let ?s' = "snd (createEmployee now b s)"
  from createEmployee_counted [OF Cons.prems(2), of now b]
  consider (refused) "data (fst (createEmployee now b s)) = None"
      "employees ?s' = employees s"
    | (created) c e where "data (fst (createEmployee now b s)) = Some c"
      "created_employeeId c = generate_employeeId (length (employees s))"
      "employeeId e = generate_employeeId (length (employees s))"
      "employees ?s' = employees s @ [e]"
    by (elim disjE exE conjE)
  then show ?case
  proof cases
    case refused
    with Cons.prems have "counted ?s'" by (simp add: counted_def)
    with Cons.IH [of ?s'] Cons.prems refused x show ?thesis by simp
  next
    case created
    with Cons.prems have c: "counted ?s'" by (auto intro: counted_snoc)
    from Cons.IH [OF _ c] Cons.prems
    have ih: "counted (run xs ?s')"
      "length (employees ?s') \<le> length (employees (run xs ?s'))"
      "assigned xs ?s'
         = map generate_employeeId [length (employees ?s')..<length (employees (run xs ?s'))]"
      by simp_all
    from created have l: "length (employees ?s') = Suc (length (employees s))" by simp
    with ih(2) have "[length (employees s)..<length (employees (run xs ?s'))]
        = length (employees s) # [length (employees ?s')..<length (employees (run xs ?s'))]"
      by (simp add: upt_conv_Cons)
    with ih created l x show ?thesis by simp
  qed
qed

lemma employee_numbers_upt:
  "map employee_number (map generate_employeeId [0..<n]) = [1..<Suc n]"
  by (induction n) (simp_all add: employee_number_generate)

text \<open>
  C4, as the claim has it, fails once employees have been deleted. After three
  creations and the deletion of the first two employees one record is left, and the
  next creation is handed \<open>EMP0002\<close>, after \<open>EMP0003\<close>. After two creations and the
  deletion of the first employee, the identifier generated next is \<open>EMP0002\<close>, which a
  stored record holds: the creation is answered with 500 and stores a User with no
  Employee record.
\<close>

theorem employee_ids_counterexample:
  "assigned reuse_run empty_db = [''EMP0001'', ''EMP0002'', ''EMP0003'', ''EMP0002'']
   \<and> map employee_number (assigned reuse_run empty_db) = [1, 2, 3, 2]
   \<and> \<not> sorted_wrt (<) (map employee_number (assigned reuse_run empty_db))
   \<and> map employeeId (employees (run collide_run empty_db)) = [''EMP0002'']
   \<and> generate_employeeId (length (employees (run collide_run empty_db))) = ''EMP0002''
   \<and> status_code (fst (createEmployee 4 (example_employee_body ''d@example.com'')
        (run collide_run empty_db))) = 500"
  by code_simp

text \<open>
  C4, amended. After every sequence of creations and deletions from the empty store, the
  identifiers of the stored Employee records are pairwise distinct. In a sequence
  without deletions, the k-th employee created receives the identifier generated from
  k - 1 stored records, whose number is k: the identifiers handed out are distinct and
  strictly increasing in the order of assignment.
\<close>

theorem employee_ids_distinct_and_counted:
  "distinct (map employeeId (employees (run xs empty_db)))
   \<and> ((\<forall>x \<in> set xs. \<not> is_delete x) \<longrightarrow>
        assigned xs empty_db
          = map generate_employeeId [0..<length (employees (run xs empty_db))]
        \<and> map employee_number (assigned xs empty_db)
          = [1..<Suc (length (employees (run xs empty_db)))]
        \<and> sorted_wrt (<) (map employee_number (assigned xs empty_db))
        \<and> distinct (assigned xs empty_db))"
proof (intro conjI impI)
  show "distinct (map employeeId (employees (run xs empty_db)))"
    by (rule run_distinct) (simp add: empty_db_def)
next
  assume c: "\<forall>x \<in> set xs. \<not> is_delete x"
  have "counted empty_db" by (simp add: counted_def empty_db_def)
  from assigned_creations [OF c this]
  show a: "assigned xs empty_db
      = map generate_employeeId [0..<length (employees (run xs empty_db))]"
    by (simp add: empty_db_def)
  show n: "map employee_number (assigned xs empty_db)
      = [1..<Suc (length (employees (run xs empty_db)))]"
    by (simp only: a employee_numbers_upt)
  show "sorted_wrt (<) (map employee_number (assigned xs empty_db))"
    by (simp only: n sorted_wrt_upt)
  have "distinct (map employee_number (assigned xs empty_db))"
    by (simp only: n distinct_upt)
  then show "distinct (assigned xs empty_db)"
    by (simp add: distinct_map)
qed

text \<open>
  Three creations, the second of which repeats an email and is refused: the two
  employees created receive \<open>EMP0001\<close> and \<open>EMP0002\<close>.
\<close>

theorem employee_ids_distinct_and_counted_witness:
  "list_all (\<lambda>x. \<not> is_delete x) create_run
   \<and> length (employees (run create_run empty_db)) = 2
   \<and> assigned create_run empty_db = [''EMP0001'', ''EMP0002'']
   \<and> map employee_number (assigned create_run empty_db) = [1, 2]"
proof -
  have h: "\<forall>x \<in> set create_run. \<not> is_delete x"
    by (simp add: create_run_def is_delete_def)
  have l: "length (employees (run create_run empty_db)) = 2"
    by code_simp
  have u: "[1..<Suc 2] = [1, 2::nat]" "[0..<2] = [0, 1::nat]"
    by (simp_all add: upt_conv_Cons)
  have g: "map generate_employeeId [0, 1] = [''EMP0001'', ''EMP0002'']"
    by code_simp
  from employee_ids_distinct_and_counted [of create_run] h
  have "assigned create_run empty_db
          = map generate_employeeId [0..<length (employees (run create_run empty_db))]"
    and "map employee_number (assigned create_run empty_db)
          = [1..<Suc (length (employees (run create_run empty_db)))]"
    by blast+
  with h l u g show ?thesis
    by (simp add: list_all_iff)
qed

section \<open>The completion rate\<close>

lemmas dbl_eval = completionRate_of_def toFixed2_def toFixed2_int_def dbl_mul_def dbl_div_def
  dbl_of_nat_def dbl_round_def round_half_even_def scaled_quotient_def bit_length.simps
  Let_def

lemmas fixed2_eval = fixed2_string_def padStart_def decimal.simps digit_char_def

lemma toFixed2_int_floor:
  "int (toFixed2_int x) = \<lfloor>100 * dbl_value x + 1 / 2\<rfloor>"
proof (cases "0 \<le> snd x")
  case True
  then have "dbl_value x = of_nat (fst x * 2 ^ nat (snd x))"
    by (simp add: dbl_value_def power_int_def)
  then have "100 * dbl_value x + 1 / 2 = of_int (int (fst x * 2 ^ nat (snd x) * 100)) + 1 / 2"
    by simp
  also have "\<lfloor>\<dots>\<rfloor> = int (fst x * 2 ^ nat (snd x) * 100)"
    by (subst floor_eq_iff) simp
  finally show ?thesis
    using True by (simp add: toFixed2_int_def)
next
  case False
  define k where "k = nat (- snd x)"
  from False have e: "snd x = - int k" and "0 < k" by (simp_all add: k_def)
  have p: "(2::rat) powi (- int k) = 1 / 2 ^ k"
    by (simp add: power_int_minus field_simps)
  have "100 * dbl_value x + 1 / 2
      = of_nat (200 * fst x + 2 ^ k) / of_nat (2 ^ (k + 1))"
    by (simp add: dbl_value_def e p field_simps)
  also have "\<lfloor>\<dots>\<rfloor> = int ((200 * fst x + 2 ^ k) div 2 ^ (k + 1))"
    by (rule floor_divide_of_nat_eq)
  finally show ?thesis
    using False by (simp add: toFixed2_int_def k_def)
qed

subsection \<open>The accuracy of the double-precision product\<close>

text \<open>
  Rounding to 53 bits changes a value by at most its \<open>2^-53\<close>-th part. The quotient of
  two counts and its product with 100 are each rounded once, so the product lies within
  the \<open>2^-51\<close>-th part of the exact rate, and the numeral printed within
  \<open>0.005 + 2^-44\<close> of it.
\<close>

lemma bit_length_bounds:
  assumes "0 < n"
  shows "2 ^ (bit_length n - 1) \<le> n \<and> n < 2 ^ bit_length n"
  using assms
proof (induction n rule: bit_length.induct)
  case (1 n)
  show ?case
  proof (cases "n div 2 = 0")
    case True
    with 1 have "n = 1" by (simp add: div_eq_0_iff)
    then show ?thesis by (simp add: bit_length.simps)
  next
    case False
    with 1 have ih: "2 ^ (bit_length (n div 2) - 1) \<le> n div 2"
      "n div 2 < 2 ^ bit_length (n div 2)"
      by simp_all
    from False have p: "0 < bit_length (n div 2)"
      by (simp add: bit_length.simps [of "n div 2"])
    from 1 have b: "bit_length n = Suc (bit_length (n div 2))"
      by (simp add: bit_length.simps [of n])
    from p have "(2::nat) ^ bit_length (n div 2) = 2 * 2 ^ (bit_length (n div 2) - 1)"
      by (cases "bit_length (n div 2)") simp_all
    with ih(1) have "2 ^ bit_length (n div 2) \<le> n" by simp
    moreover from ih(2) have "n < 2 * 2 ^ bit_length (n div 2)" by linarith
    ultimately show ?thesis by (simp add: b)
  qed
qed

lemma round_half_even_error:
  assumes "0 < den"
  shows "\<bar>2 * (int den * int (round_half_even num den) - int num)\<bar> \<le> int den"
proof -
  define q r where "q = num div den" and "r = num mod den"
  have n: "int num = int den * int q + int r"
    by (simp add: q_def r_def flip: of_nat_mult of_nat_add)
  from assms have r: "r < den" by (simp add: r_def)
  show ?thesis
  proof (cases "den < 2 * r \<or> (2 * r = den \<and> odd q)")
    case True
    then have "round_half_even num den = q + 1"
      by (simp add: round_half_even_def q_def r_def Let_def)
    with True r n show ?thesis by (auto simp: algebra_simps)
  next
    case False
    then have "round_half_even num den = q"
      by (simp add: round_half_even_def q_def r_def Let_def)
    with False n show ?thesis by (auto simp: algebra_simps)
  qed
qed

lemma dbl_round_error:
  "\<bar>dbl_value (dbl_round m e) - of_nat m * 2 powi e\<bar> \<le> of_nat m * 2 powi e / 2 ^ 53"
proof (cases "bit_length m \<le> 53")
  case True
  then show ?thesis by (simp add: dbl_round_def dbl_value_def)
next
  case False
  define s where "s = bit_length m - 53"
  define R where "R = round_half_even m (2 ^ s)"
  from False have b: "bit_length m = s + 53" and "0 < m"
    by (auto simp: s_def bit_length.simps [of m] split: if_splits)
  from bit_length_bounds [OF \<open>0 < m\<close>] b have "2 ^ (s + 52) \<le> m"
    by (simp add: add.commute)
  then have "(2::rat) ^ (s + 52) \<le> of_nat m"
    by (metis of_nat_le_iff of_nat_numeral of_nat_power)
  then have m: "(2::rat) ^ s \<le> of_nat m / 2 ^ 52"
    by (simp add: power_add field_simps)
  from round_half_even_error [of "2 ^ s" m]
  have "\<bar>2 * (int (2 ^ s) * int R - int m)\<bar> \<le> int (2 ^ s)"
    by (simp add: R_def)
  then have "\<bar>2 * (2 ^ s * rat_of_nat R - rat_of_nat m)\<bar> \<le> 2 ^ s"
    by (metis (mono_tags, opaque_lifting) of_int_abs of_int_diff of_int_le_iff of_int_mult
        of_int_numeral of_int_of_nat_eq of_nat_numeral of_nat_power)
  then have "2 * \<bar>2 ^ s * rat_of_nat R - rat_of_nat m\<bar> \<le> 2 ^ s"
    by (simp only: abs_mult)
  then have "\<bar>2 ^ s * rat_of_nat R - rat_of_nat m\<bar> \<le> 2 ^ s / 2"
    by (simp add: mult.commute)
  with m have d: "\<bar>2 ^ s * rat_of_nat R - rat_of_nat m\<bar> \<le> rat_of_nat m / 2 ^ 53"
    by simp
  have "dbl_round m e = (R, e + int s)"
    using False by (simp add: dbl_round_def R_def s_def Let_def)
  then have v: "dbl_value (dbl_round m e) = rat_of_nat R * (2 ^ s * 2 powi e)"
    by (simp add: dbl_value_def power_int_add)
  have "dbl_value (dbl_round m e) - of_nat m * 2 powi e
      = (2 ^ s * rat_of_nat R - rat_of_nat m) * 2 powi e"
    by (simp add: v algebra_simps)
  then have "\<bar>dbl_value (dbl_round m e) - of_nat m * 2 powi e\<bar>
      = \<bar>2 ^ s * rat_of_nat R - rat_of_nat m\<bar> * 2 powi e"
    by (simp add: abs_mult)
  also from d have "\<dots> \<le> rat_of_nat m / 2 ^ 53 * 2 powi e"
    by (intro mult_right_mono) simp_all
  finally show ?thesis by simp
qed

lemma bit_length_le_53:
  assumes "n < 2 ^ 53"
  shows "bit_length n \<le> 53"
proof (cases "n = 0")
  case True
  then show ?thesis by (simp add: bit_length.simps)
next
  case False
  then have "2 ^ (bit_length n - 1) \<le> n"
    using bit_length_bounds [of n] by simp
  from this assms have lt: "(2::nat) ^ (bit_length n - 1) < 2 ^ 53"
    by (rule le_less_trans)
  have "bit_length n - 1 < 53"
    by (rule power_less_imp_less_exp [OF _ lt]) simp
  then show ?thesis by simp
qed

lemma dbl_of_nat_exact:
  assumes "n < 2 ^ 53"
  shows "dbl_of_nat n = (n, 0)"
  using bit_length_le_53 [OF assms] by (simp add: dbl_of_nat_def dbl_round_def)

lemma bit_length_mono:
  assumes "0 < a" and "a \<le> b"
  shows "bit_length a \<le> bit_length b"
proof -
  from assms have "0 < b" by simp
  from bit_length_bounds [OF assms(1)] have "2 ^ (bit_length a - 1) \<le> a" by simp
  also note assms(2)
  also from bit_length_bounds [OF \<open>0 < b\<close>] have "b < 2 ^ bit_length b" by simp
  finally have lt: "(2::nat) ^ (bit_length a - 1) < 2 ^ bit_length b" .
  have "bit_length a - 1 < bit_length b"
    by (rule power_less_imp_less_exp [OF _ lt]) simp
  then show ?thesis by simp
qed

lemma quotient_round_error:
  assumes "0 < b" and "2 ^ 52 * b \<le> a * 2 ^ K"
  shows "\<bar>rat_of_nat (round_half_even (a * 2 ^ K) b) / 2 ^ K - of_nat a / of_nat b\<bar>
           \<le> of_nat a / of_nat b / 2 ^ 53"
proof -
  define R where "R = round_half_even (a * 2 ^ K) b"
  from round_half_even_error [OF assms(1), of "a * 2 ^ K"]
  have "\<bar>2 * (int b * int R - int (a * 2 ^ K))\<bar> \<le> int b"
    by (simp add: R_def)
  then have "\<bar>2 * (rat_of_nat b * rat_of_nat R - rat_of_nat (a * 2 ^ K))\<bar> \<le> rat_of_nat b"
    by (metis (mono_tags, opaque_lifting) of_int_abs of_int_diff of_int_le_iff of_int_mult
        of_int_numeral of_int_of_nat_eq)
  then have e: "2 * \<bar>rat_of_nat b * rat_of_nat R - rat_of_nat a * 2 ^ K\<bar> \<le> rat_of_nat b"
    by (simp only: abs_mult of_nat_mult of_nat_power of_nat_numeral)
  from assms(2) have "rat_of_nat (2 ^ 52 * b) \<le> rat_of_nat (a * 2 ^ K)"
    by (simp only: of_nat_le_iff)
  then have g: "2 ^ 52 * rat_of_nat b \<le> rat_of_nat a * 2 ^ K"
    by simp
  from assms(1) have bp: "0 < rat_of_nat b" by simp
  have "rat_of_nat R / 2 ^ K - of_nat a / of_nat b
      = (rat_of_nat b * rat_of_nat R - rat_of_nat a * 2 ^ K) / (rat_of_nat b * 2 ^ K)"
    using bp by (simp add: field_simps)
  then have "\<bar>rat_of_nat R / 2 ^ K - of_nat a / of_nat b\<bar>
      = \<bar>rat_of_nat b * rat_of_nat R - rat_of_nat a * 2 ^ K\<bar> / (rat_of_nat b * 2 ^ K)"
    using bp by (simp add: abs_mult)
  also from e bp have "\<dots> \<le> (rat_of_nat b / 2) / (rat_of_nat b * 2 ^ K)"
    by (intro divide_right_mono) simp_all
  also from bp have "\<dots> = 2 ^ 52 * rat_of_nat b / (rat_of_nat b * 2 ^ K) / 2 ^ 53"
    by simp
  also from g bp have "\<dots> \<le> rat_of_nat a * 2 ^ K / (rat_of_nat b * 2 ^ K) / 2 ^ 53"
    by (intro divide_right_mono) simp_all
  also have "\<dots> = of_nat a / of_nat b / 2 ^ 53"
    by simp
  finally show ?thesis by (simp add: R_def)
qed

lemma dbl_div_counts:
  assumes "0 < a" and "a \<le> b"
  shows "\<exists>K. dbl_div (a, 0) (b, 0) = (round_half_even (a * 2 ^ K) b, - int K)
           \<and> 2 ^ 52 * b \<le> a * 2 ^ K"
proof -
  define K0 where "K0 = 53 + bit_length b - bit_length a"
  from assms have "0 < b" by simp
  from bit_length_mono [OF assms] have le: "bit_length a \<le> bit_length b" .
  from assms(1) have la: "0 < bit_length a"
    by (simp add: bit_length.simps [of a])
  from le have k0: "53 + int (bit_length b) - int (bit_length a) = int K0"
    by (simp add: K0_def)
  have sq: "scaled_quotient a b (int K) = (a * 2 ^ K, b)" for K
    by (simp add: scaled_quotient_def)
  from le la have ex: "bit_length a - 1 + K0 = 52 + bit_length b"
    by (simp add: K0_def)
  from bit_length_bounds [OF \<open>0 < b\<close>] have "2 ^ 52 * b \<le> 2 ^ 52 * 2 ^ bit_length b"
    by simp
  also have "\<dots> = 2 ^ (bit_length a - 1) * 2 ^ K0"
    by (simp only: ex power_add [symmetric])
  also from bit_length_bounds [OF assms(1)] have "\<dots> \<le> a * 2 ^ K0"
    by (intro mult_right_mono) simp_all
  finally have big: "2 ^ 52 * b \<le> a * 2 ^ K0" .
  show ?thesis
  proof (cases "2 ^ 53 \<le> a * 2 ^ K0 div b")
    case True
    from le have "0 < K0" by (simp add: K0_def)
    then have k: "int K0 - 1 = int (K0 - 1)" and p: "(2::nat) ^ K0 = 2 * 2 ^ (K0 - 1)"
      by (cases K0; simp)+
    from True have "2 ^ 53 * b \<le> a * 2 ^ K0 div b * b"
      by (intro mult_right_mono) simp_all
    also have "\<dots> \<le> a * 2 ^ K0" by simp
    finally have "2 ^ 52 * b \<le> a * 2 ^ (K0 - 1)"
      by (simp add: p)
    moreover from True assms(1)
    have "dbl_div (a, 0) (b, 0) = (round_half_even (a * 2 ^ (K0 - 1)) b, - int (K0 - 1))"
      by (simp add: dbl_div_def Let_def k0 sq k)
    ultimately show ?thesis by blast
  next
    case False
    with assms(1)
    have "dbl_div (a, 0) (b, 0) = (round_half_even (a * 2 ^ K0) b, - int K0)"
      by (simp add: dbl_div_def Let_def k0 sq)
    with big show ?thesis by blast
  qed
qed

lemma dbl_div_error:
  assumes "0 < a" and "a \<le> b"
  shows "\<bar>dbl_value (dbl_div (a, 0) (b, 0)) - of_nat a / of_nat b\<bar>
           \<le> of_nat a / of_nat b / 2 ^ 53"
proof -
  from dbl_div_counts [OF assms] obtain K
    where d: "dbl_div (a, 0) (b, 0) = (round_half_even (a * 2 ^ K) b, - int K)"
      and g: "2 ^ 52 * b \<le> a * 2 ^ K"
    by blast
  from assms have "0 < b" by simp
  have "dbl_value (round_half_even (a * 2 ^ K) b, - int K)
      = rat_of_nat (round_half_even (a * 2 ^ K) b) / 2 ^ K"
    by (simp add: dbl_value_def power_int_minus field_simps)
  with quotient_round_error [OF \<open>0 < b\<close> g] show ?thesis
    by (simp only: d)
qed

lemma rate_product_error:
  assumes "c \<le> t" and "0 < t" and "t < 2 ^ 53"
  shows "\<bar>dbl_value (dbl_mul (dbl_div (dbl_of_nat c) (dbl_of_nat t)) (dbl_of_nat 100))
            - 100 * (of_nat c / of_nat t)\<bar>
           \<le> 100 * (of_nat c / of_nat t) / 2 ^ 51"
proof (cases "c = 0")
  case True
  then show ?thesis
    by (simp add: dbl_of_nat_def dbl_round_def dbl_div_def dbl_mul_def dbl_value_def
        bit_length.simps [of 0])
next
  case False
  define q :: rat where "q = of_nat c / of_nat t"
  define d where "d = dbl_div (c, 0) (t, 0)"
  define x where "x = dbl_mul d (100, 0)"
  from assms have "c < 2 ^ 53" by simp
  then have oc: "dbl_of_nat c = (c, 0)" by (rule dbl_of_nat_exact)
  from assms(3) have ot: "dbl_of_nat t = (t, 0)" by (rule dbl_of_nat_exact)
  have oh: "dbl_of_nat 100 = (100, 0)" by (rule dbl_of_nat_exact) simp
  from False assms(1) have e1: "\<bar>dbl_value d - q\<bar> \<le> q / 2 ^ 53"
    unfolding d_def q_def by (intro dbl_div_error) simp_all
  have q0: "0 \<le> q" by (simp add: q_def)
  from e1 have dq: "dbl_value d \<le> q + q / 2 ^ 53" by linarith
  have "rat_of_nat (fst d * 100) * 2 powi (snd d + 0) = 100 * dbl_value d"
    by (simp add: dbl_value_def)
  with dbl_round_error [of "fst d * 100" "snd d + 0"]
  have e2: "\<bar>dbl_value x - 100 * dbl_value d\<bar> \<le> 100 * dbl_value d / 2 ^ 53"
    by (simp only: x_def dbl_mul_def fst_conv snd_conv)
  have "\<bar>(dbl_value x - 100 * dbl_value d) + 100 * (dbl_value d - q)\<bar>
      \<le> \<bar>dbl_value x - 100 * dbl_value d\<bar> + \<bar>100 * (dbl_value d - q)\<bar>"
    by (rule abs_triangle_ineq)
  moreover have "\<bar>100 * (dbl_value d - q)\<bar> = 100 * \<bar>dbl_value d - q\<bar>"
    by (simp only: abs_mult abs_numeral)
  moreover have "(dbl_value x - 100 * dbl_value d) + 100 * (dbl_value d - q)
      = dbl_value x - 100 * q"
    by (simp add: algebra_simps)
  ultimately have "\<bar>dbl_value x - 100 * q\<bar>
      \<le> \<bar>dbl_value x - 100 * dbl_value d\<bar> + 100 * \<bar>dbl_value d - q\<bar>"
    by (simp only:)
  also from e1 e2 have "\<dots> \<le> 100 * dbl_value d / 2 ^ 53 + 100 * (q / 2 ^ 53)"
    by (intro add_mono mult_left_mono) simp_all
  also from dq have "\<dots> \<le> 100 * (q + q / 2 ^ 53) / 2 ^ 53 + 100 * (q / 2 ^ 53)"
    by (simp add: divide_right_mono)
  also from q0 have "\<dots> \<le> 100 * q / 2 ^ 51"
    by (simp add: field_simps)
  finally show ?thesis
    by (simp only: x_def d_def q_def oc ot oh)
qed

lemma rate_numeral_error:
  assumes "c \<le> t" and "0 < t" and "t < 2 ^ 53"
  shows "\<bar>rat_of_nat (toFixed2_int (dbl_mul (dbl_div (dbl_of_nat c) (dbl_of_nat t))
            (dbl_of_nat 100))) / 100 - 100 * (of_nat c / of_nat t)\<bar>
           \<le> 1 / 200 + 1 / 2 ^ 44"
proof -
  define x where "x = dbl_value (dbl_mul (dbl_div (dbl_of_nat c) (dbl_of_nat t)) (dbl_of_nat 100))"
  define n where "n = toFixed2_int (dbl_mul (dbl_div (dbl_of_nat c) (dbl_of_nat t)) (dbl_of_nat 100))"
  define q :: rat where "q = of_nat c / of_nat t"
  from assms have "q \<le> 1" by (simp add: q_def)
  moreover have "0 \<le> q" by (simp add: q_def)
  moreover from rate_product_error [OF assms] have "\<bar>x - 100 * q\<bar> \<le> 100 * q / 2 ^ 51"
    by (simp only: x_def q_def)
  ultimately have a: "\<bar>x - 100 * q\<bar> \<le> 1 / 2 ^ 44"
    by (simp add: field_simps)
  have f: "rat_of_int \<lfloor>100 * x + 1 / 2\<rfloor> = rat_of_nat n"
    by (simp add: n_def x_def toFixed2_int_floor [symmetric])
  from floor_correct [of "100 * x + 1 / 2"]
  have "rat_of_nat n \<le> 100 * x + 1 / 2" and "100 * x + 1 / 2 < rat_of_nat n + 1"
    by (simp_all add: f)
  then have "\<bar>rat_of_nat n / 100 - x\<bar> \<le> 1 / 200"
    by linarith
  with a have "\<bar>rat_of_nat n / 100 - 100 * q\<bar> \<le> 1 / 200 + 1 / 2 ^ 44"
    by linarith
  then show ?thesis
    by (simp only: n_def q_def)
qed

subsection \<open>The rate that is printed\<close>

text \<open>
  C6, as the claim has it, fails where the exact value is a tie. With 23 of 160 tasks
  completed the exact rate is 14.375; the double-precision product is below it and is
  printed as 14.37, where rounding the exact rate gives 14.38.
\<close>

theorem completionRate_counterexample:
  "completionRate_of 160 23 = RateString ''14.37''
   \<and> (of_nat 23 / of_nat 160 * 100 :: rat) = 14375 / 1000
   \<and> dbl_value (dbl_mul (dbl_div (dbl_of_nat 23) (dbl_of_nat 160)) (dbl_of_nat 100))
       < 14375 / 1000
   \<and> exact_rate_half_up 160 23 = ''14.38''
   \<and> exact_rate_half_even 160 23 = ''14.38''
   \<and> completionRate_of 160 23 \<noteq> RateString (exact_rate_half_up 160 23)"
proof -
  have c: "completionRate_of 160 23 = RateString ''14.37''"
    by (simp add: dbl_eval fixed2_eval)
  have x: "dbl_mul (dbl_div (dbl_of_nat 23) (dbl_of_nat 160)) (dbl_of_nat 100)
      = (8092405580431359, - 49)"
    by (simp add: dbl_eval)
  have v: "dbl_value (8092405580431359, - 49) < 14375 / 1000"
    by (simp add: dbl_value_def power_int_minus)
  have s: "fixed2_string 1438 = ''14.38''"
    by (simp add: fixed2_eval)
  have "nat \<lfloor>of_nat 23 / of_nat 160 * 100 * 100 + (1 / 2 :: rat)\<rfloor> = 1438"
    by simp
  with s have u: "exact_rate_half_up 160 23 = ''14.38''"
    by (simp only: exact_rate_half_up_def)
  have "round_half_even (23 * 100 * 100) 160 = 1438"
    by (simp add: round_half_even_def)
  with s have e: "exact_rate_half_even 160 23 = ''14.38''"
    by (simp only: exact_rate_half_even_def)
  have q: "(of_nat 23 / of_nat 160 * 100 :: rat) = 14375 / 1000"
    by simp
  from c x v u e q show ?thesis
    by (simp only: rate.inject) simp
qed

text \<open>
  C6, amended. The rate is the number 0 when there is no task. Otherwise it is the
  string of the numeral with two decimals that is nearest to the double-precision
  value of \<open>(completedTasks / totalTasks) * 100\<close>, the larger one on a tie; that
  numeral lies within \<open>0.005 + 2^-44\<close> of the exact rate; 3 completed of 7 yields
  \<open>42.86\<close>.
\<close>

theorem completionRate_of_double:
  "completionRate_of 0 c = RateNumber 0
   \<and> (0 < t \<longrightarrow>
        completionRate_of t c = RateString (fixed2_string (nat
          \<lfloor>100 * dbl_value (dbl_mul (dbl_div (dbl_of_nat c) (dbl_of_nat t)) (dbl_of_nat 100))
             + 1 / 2\<rfloor>)))
   \<and> (0 < t \<and> c \<le> t \<and> t < 2 ^ 53 \<longrightarrow>
        \<bar>rat_of_nat (nat
          \<lfloor>100 * dbl_value (dbl_mul (dbl_div (dbl_of_nat c) (dbl_of_nat t)) (dbl_of_nat 100))
             + 1 / 2\<rfloor>) / 100 - 100 * (of_nat c / of_nat t)\<bar>
          \<le> 1 / 200 + 1 / 2 ^ 44)
   \<and> completionRate_of 7 3 = RateString ''42.86''"
proof -
  let ?x = "dbl_mul (dbl_div (dbl_of_nat c) (dbl_of_nat t)) (dbl_of_nat 100)"
  have n: "toFixed2_int ?x = nat \<lfloor>100 * dbl_value ?x + 1 / 2\<rfloor>"
    using toFixed2_int_floor [of ?x] by linarith
  have "completionRate_of 0 c = RateNumber 0"
    by (simp add: completionRate_of_def)
  moreover have "completionRate_of t c = RateString (fixed2_string (nat
      \<lfloor>100 * dbl_value ?x + 1 / 2\<rfloor>))" if "0 < t"
    using that n by (simp add: completionRate_of_def toFixed2_def)
  moreover have "\<bar>rat_of_nat (nat \<lfloor>100 * dbl_value ?x + 1 / 2\<rfloor>) / 100
      - 100 * (of_nat c / of_nat t)\<bar> \<le> 1 / 200 + 1 / 2 ^ 44"
    if "0 < t \<and> c \<le> t \<and> t < 2 ^ 53"
    using that rate_numeral_error [of c t] by (simp only: n)
  moreover have "completionRate_of 7 3 = RateString ''42.86''"
    by (simp add: dbl_eval fixed2_eval)
  ultimately show ?thesis by blast
qed

text \<open>One task of eight: the product is exactly 12.5 and is printed with two decimals.\<close>

theorem completionRate_of_double_witness:
  "(0::nat) < 8 \<and> (1::nat) \<le> 8 \<and> (8::nat) < 2 ^ 53
   \<and> completionRate_of 8 1 = RateString ''12.50''
   \<and> dbl_value (dbl_mul (dbl_div (dbl_of_nat 1) (dbl_of_nat 8)) (dbl_of_nat 100)) = 25 / 2
   \<and> \<bar>rat_of_nat 1250 / 100 - 100 * (of_nat 1 / of_nat 8)\<bar> \<le> 1 / 200 + 1 / 2 ^ 44"
proof -
  have x: "dbl_mul (dbl_div (dbl_of_nat 1) (dbl_of_nat 8)) (dbl_of_nat 100)
      = (7036874417766400, - 49)"
    by (simp add: dbl_eval)
  have v: "dbl_value (7036874417766400, - 49) = 25 / 2"
    by (simp add: dbl_value_def power_int_minus)
  have "\<lfloor>2501 / 2 :: rat\<rfloor> = 1250"
    using floor_divide_of_int_eq [of 2501 2, where ?'a = rat] by simp
  then have n: "nat \<lfloor>100 * (25 / 2 :: rat) + 1 / 2\<rfloor> = 1250"
    by simp
  have f: "fixed2_string 1250 = ''12.50''"
    by (simp add: fixed2_eval)
  have h: "(0::nat) < 8 \<and> (1::nat) \<le> 8 \<and> (8::nat) < 2 ^ 53" by simp
  note t = completionRate_of_double [of 1 8]
  have "completionRate_of 8 1 = RateString (fixed2_string (nat
      \<lfloor>100 * dbl_value (dbl_mul (dbl_div (dbl_of_nat 1) (dbl_of_nat 8)) (dbl_of_nat 100))
         + 1 / 2\<rfloor>))"
    by (rule t [THEN conjunct2, THEN conjunct1, THEN mp]) simp
  then have r: "completionRate_of 8 1 = RateString ''12.50''"
    by (simp only: x v n f)
  have "\<bar>rat_of_nat (nat
      \<lfloor>100 * dbl_value (dbl_mul (dbl_div (dbl_of_nat 1) (dbl_of_nat 8)) (dbl_of_nat 100))
         + 1 / 2\<rfloor>) / 100 - 100 * (of_nat 1 / of_nat 8)\<bar> \<le> 1 / 200 + 1 / 2 ^ 44"
    by (rule t [THEN conjunct2, THEN conjunct2, THEN conjunct1, THEN mp]) (rule h)
  then have b: "\<bar>rat_of_nat 1250 / 100 - 100 * (of_nat 1 / of_nat 8)\<bar>
      \<le> 1 / 200 + 1 / 2 ^ 44"
    by (simp only: x v n)
  from h r x v b show ?thesis by (simp only:)
qed


end
